theory Spec2Isabelle
  imports Complex_Main "HOL-Library.Stream" "HOL-Library.AList" "HOL-Library.Multiset"
begin

section \<open>Data model\<close>

text \<open>
  The program (\<^verbatim>\<open>src/server.js\<close>) ranks highway projects from GeoJSON layers.
  JavaScript numbers are modelled as \<^typ>\<open>real\<close>: every division of the program is
  guarded (\<^verbatim>\<open>x > 0 ? a / x : 0\<close>), and the layers are read with \<^verbatim>\<open>JSON.parse\<close>, which
  never produces \<^verbatim>\<open>NaN\<close>; rounding, overflow and the infinities of doubles are not
  modelled. A value computed by \<^verbatim>\<open>parseFloat\<close> may be \<^verbatim>\<open>NaN\<close>: it has the type \<open>number\<close>.
  Logging (\<^verbatim>\<open>console.log\<close>, \<^verbatim>\<open>debugData\<close>) is left out unless it can throw.
\<close>

datatype number = Num real | NaN

datatype json =
  JNull | JBool bool | JNum real | JStr string | JArr "json list" | JObj "(string \<times> json) list"

text \<open>Property values of a feature are scalars (the data model of the program's layers).\<close>

datatype scalar = SNull | SBool bool | SNum real | SStr string

record geom =
  gtype :: string
  coordinates :: "json option"

text \<open>
  A GeoJSON feature: \<open>geometry\<close> is \<open>None\<close> when absent or \<^verbatim>\<open>null\<close>, \<open>properties\<close> is
  \<open>None\<close> when absent or \<^verbatim>\<open>null\<close>; a property that is not there is \<^verbatim>\<open>undefined\<close>.
  The elements of a \<^verbatim>\<open>features\<close> array are objects (the guard \<^verbatim>\<open>!feat\<close> of
  \<^verbatim>\<open>getCentroidsWithin\<close> is never true of them).
\<close>

record feature =
  geometry :: "geom option"
  properties :: "(string \<rightharpoonup> scalar) option"

datatype error = TypeError

text \<open>
  What the program calls but does not define: the functions of the turf library, the
  built-in \<^verbatim>\<open>parseFloat\<close> on strings, and the file system read by
  \<^verbatim>\<open>fs.readJsonSync\<close>. A call that throws returns \<open>None\<close>; \<open>readFeatures\<close> gives the
  \<^verbatim>\<open>features\<close> array of a readable file. The distance given to \<^verbatim>\<open>turf.buffer\<close> is \<open>None\<close>
  when the program passes a value that is not a number (see \<open>fcDistance\<close>).
\<close>

record env =
  turf_buffer :: "feature \<Rightarrow> real option \<Rightarrow> string \<Rightarrow> feature option"
  turf_booleanIntersects :: "feature \<Rightarrow> feature \<Rightarrow> bool option"
  turf_centroid :: "feature \<Rightarrow> feature option"
  turf_booleanWithin :: "feature \<Rightarrow> feature \<Rightarrow> bool option"
  turf_length :: "feature \<Rightarrow> string \<Rightarrow> real option"
  parseFloat_str :: "string \<Rightarrow> number"
  readFeatures :: "string \<Rightarrow> feature list option"

section \<open>JavaScript helpers\<close>

text \<open>Truthiness of a value that may be \<^verbatim>\<open>undefined\<close> (\<open>None\<close>).\<close>

fun truthy :: "scalar option \<Rightarrow> bool" where
  "truthy None = False"
| "truthy (Some SNull) = False"
| "truthy (Some (SBool b)) = b"
| "truthy (Some (SNum x)) = (x \<noteq> 0)"
| "truthy (Some (SStr s)) = (s \<noteq> [])"

fun json_truthy :: "json \<Rightarrow> bool" where
  "json_truthy JNull = False"
| "json_truthy (JBool b) = b"
| "json_truthy (JNum x) = (x \<noteq> 0)"
| "json_truthy (JStr s) = (s \<noteq> [])"
| "json_truthy (JArr xs) = True"
| "json_truthy (JObj kvs) = True"

text \<open>\<^verbatim>\<open>a || b\<close> on values.\<close>

definition or_else :: "scalar option \<Rightarrow> scalar option \<Rightarrow> scalar option" where
  "or_else a b = (if truthy a then a else b)"

text \<open>\<^verbatim>\<open>a || d\<close> with a default that is a value.\<close>

definition or_default :: "scalar option \<Rightarrow> scalar \<Rightarrow> scalar" where
  "or_default a d = (case a of None \<Rightarrow> d | Some v \<Rightarrow> if truthy (Some v) then v else d)"

text \<open>\<^verbatim>\<open>parseFloat(v)\<close>: a number is returned as it is, a string is parsed, anything else
  (\<^verbatim>\<open>true\<close>, \<^verbatim>\<open>null\<close>, \<^verbatim>\<open>undefined\<close>) gives \<^verbatim>\<open>NaN\<close>.\<close>

fun parseFloat :: "env \<Rightarrow> scalar option \<Rightarrow> number" where
  "parseFloat E (Some (SNum x)) = Num x"
| "parseFloat E (Some (SStr s)) = parseFloat_str E s"
| "parseFloat E _ = NaN"

text \<open>\<^verbatim>\<open>parseFloat(v) || d\<close>: \<^verbatim>\<open>NaN\<close> and \<open>0\<close> are falsy.\<close>

definition parseFloat_or :: "env \<Rightarrow> scalar option \<Rightarrow> real \<Rightarrow> real" where
  "parseFloat_or E v d = (case parseFloat E v of NaN \<Rightarrow> d | Num x \<Rightarrow> if x = 0 then d else x)"

text \<open>\<^verbatim>\<open>toLowerCase\<close> and \<^verbatim>\<open>toUpperCase\<close> on the ASCII letters (strings are byte strings here).\<close>

definition lower_char :: "char \<Rightarrow> char" where
  "lower_char c =
     (case map_of (zip ''ABCDEFGHIJKLMNOPQRSTUVWXYZ'' ''abcdefghijklmnopqrstuvwxyz'') c of
        None \<Rightarrow> c | Some l \<Rightarrow> l)"

definition upper_char :: "char \<Rightarrow> char" where
  "upper_char c =
     (case map_of (zip ''abcdefghijklmnopqrstuvwxyz'' ''ABCDEFGHIJKLMNOPQRSTUVWXYZ'') c of
        None \<Rightarrow> c | Some u \<Rightarrow> u)"

text \<open>\<^verbatim>\<open>v.toLowerCase()\<close> on a truthy value: a \<^verbatim>\<open>TypeError\<close> unless it is a string.\<close>

fun toLowerCase :: "scalar option \<Rightarrow> error + string" where
  "toLowerCase (Some (SStr s)) = Inr (map lower_char s)"
| "toLowerCase _ = Inl TypeError"

fun toUpperCase :: "scalar option \<Rightarrow> error + string" where
  "toUpperCase (Some (SStr s)) = Inr (map upper_char s)"
| "toUpperCase _ = Inl TypeError"

text \<open>\<^verbatim>\<open>Math.max(x, ...xs)\<close>.\<close>

definition Math_max :: "real \<Rightarrow> real list \<Rightarrow> real" where
  "Math_max x xs = foldl max x xs"

text \<open>\<^verbatim>\<open>xs.map(f)\<close> with a callback that may throw: the first exception ends the map.\<close>

fun mapE :: "('a \<Rightarrow> error + 'b) \<Rightarrow> 'a list \<Rightarrow> error + 'b list" where
  "mapE f [] = Inr []"
| "mapE f (x # xs) =
     (case f x of Inl e \<Rightarrow> Inl e
      | Inr y \<Rightarrow> (case mapE f xs of Inl e \<Rightarrow> Inl e | Inr ys \<Rightarrow> Inr (y # ys)))"

text \<open>\<^verbatim>\<open>try { ... } catch { return d }\<close>.\<close>

definition catch :: "error + 'a \<Rightarrow> 'a \<Rightarrow> 'a" where
  "catch r d = (case r of Inl e \<Rightarrow> d | Inr v \<Rightarrow> v)"

section \<open>Spatial join engine\<close>

text \<open>\<^verbatim>\<open>createBuffer\<close> (lines 127-134): the feature itself when \<^verbatim>\<open>turf.buffer\<close> throws.\<close>

definition createBuffer :: "env \<Rightarrow> feature \<Rightarrow> real option \<Rightarrow> string \<Rightarrow> feature" where
  "createBuffer E feat distance units =
     (case turf_buffer E feat distance units of Some b \<Rightarrow> b | None \<Rightarrow> feat)"

text \<open>The filter \<^verbatim>\<open>(feat) => { try { return turf.booleanIntersects(feat, buffer) } catch { return false } }\<close>
  that the analyzers apply to a layer.\<close>

definition intersectsBuffer :: "env \<Rightarrow> feature \<Rightarrow> feature \<Rightarrow> bool" where
  "intersectsBuffer E buffer feat =
     (case turf_booleanIntersects E feat buffer of Some b \<Rightarrow> b | None \<Rightarrow> False)"

text \<open>\<^verbatim>\<open>typeof c === "number" && !isNaN(c)\<close>; a number read from JSON is never \<^verbatim>\<open>NaN\<close>.\<close>

fun isNumber :: "json \<Rightarrow> bool" where
  "isNumber (JNum x) = True"
| "isNumber _ = False"

text \<open>\<^verbatim>\<open>Array.isArray(coord) && coord.every((c) => typeof c === "number" ...)\<close>.\<close>

fun numberArray :: "json \<Rightarrow> bool" where
  "numberArray (JArr cs) = list_all isNumber cs"
| "numberArray _ = False"

text \<open>
  \<^verbatim>\<open>coords.every(...)\<close>, written out three times in the program (\<^verbatim>\<open>getCentroidsWithin\<close>,
  \<^verbatim>\<open>debugTAZData\<close>, \<^verbatim>\<open>cleanGeoJSON\<close>; only the first also asks \<^verbatim>\<open>!isNaN(c)\<close>):
  \<open>Inl TypeError\<close> when \<^verbatim>\<open>coords\<close> is not an array (it has no \<^verbatim>\<open>every\<close>).
\<close>

fun everyNumberArray :: "json \<Rightarrow> error + bool" where
  "everyNumberArray (JArr coords) = Inr (list_all numberArray coords)"
| "everyNumberArray _ = Inl TypeError"

text \<open>
  The callback of \<^verbatim>\<open>getCentroidsWithin\<close> (lines 160-198). Step 1 rejects a missing
  geometry, falsy coordinates and an empty coordinate array; step 2 is the check of the
  coordinates; steps 3 and 4 take the centroid and test it. Every exception is caught and
  gives \<open>False\<close>.
\<close>

definition centroidWithin :: "env \<Rightarrow> feature \<Rightarrow> feature \<Rightarrow> bool" where
  "centroidWithin E buffer feat =
     (case geometry feat of None \<Rightarrow> False
      | Some g \<Rightarrow>
        (case coordinates g of None \<Rightarrow> False
         | Some coords \<Rightarrow>
           if \<not> json_truthy coords then False
           else if coords = JArr [] then False
           else (case everyNumberArray coords of Inl e \<Rightarrow> False
             | Inr hasValidCoords \<Rightarrow>
               if \<not> hasValidCoords then False
               else (case turf_centroid E feat of None \<Rightarrow> False
                 | Some centroid \<Rightarrow>
                   (case geometry centroid of None \<Rightarrow> False
                    | Some cg \<Rightarrow>
                      (case coordinates cg of None \<Rightarrow> False
                       | Some cc \<Rightarrow>
                         if \<not> json_truthy cc then False
                         else (case turf_booleanWithin E centroid buffer of
                                 None \<Rightarrow> False | Some b \<Rightarrow> b)))))))"

definition getCentroidsWithin :: "env \<Rightarrow> feature \<Rightarrow> feature list \<Rightarrow> feature list" where
  "getCentroidsWithin E buffer features = filter (centroidWithin E buffer) features"

section \<open>Feature validator\<close>

text \<open>The callback of \<^verbatim>\<open>cleanGeoJSON\<close> (lines 696-709); the name is only logged.\<close>

definition cleanFeature :: "feature \<Rightarrow> bool" where
  "cleanFeature feat =
     (case geometry feat of None \<Rightarrow> False
      | Some g \<Rightarrow>
        (case coordinates g of None \<Rightarrow> False
         | Some coords \<Rightarrow>
           if \<not> json_truthy coords then False
           else (case everyNumberArray coords of Inl e \<Rightarrow> False | Inr valid \<Rightarrow> valid)))"

definition cleanGeoJSON :: "feature list \<Rightarrow> feature list" where
  "cleanGeoJSON fc = filter cleanFeature fc"

section \<open>Criterion analyzers\<close>

text \<open>One object of an analyzer's result: \<^verbatim>\<open>{ project_id: ..., <column>: <value> }\<close>.\<close>

record row =
  row_id :: scalar
  row_col :: string
  row_val :: real

text \<open>\<^verbatim>\<open>proj.properties.project_id || i + 1\<close>, outside the \<^verbatim>\<open>try\<close> of every analyzer.\<close>

definition projectId :: "feature \<Rightarrow> nat \<Rightarrow> error + scalar" where
  "projectId proj i =
     (case properties proj of None \<Rightarrow> Inl TypeError
      | Some ps \<Rightarrow> Inr (or_default (ps ''project_id'') (SNum (real (i + 1)))))"

text \<open>
  The shape shared by the analyzers:
  \<^verbatim>\<open>projectsFC.features.map((proj, i) => { const projectId = ...; try { ... return { project_id, x } } catch { return { project_id, x: 0 } } })\<close>.
\<close>

definition perProject :: "(feature \<Rightarrow> error + real) \<Rightarrow> feature list \<Rightarrow> error + (scalar \<times> real) list" where
  "perProject body projects =
     mapE (\<lambda>(i, proj). case projectId proj i of Inl e \<Rightarrow> Inl e
                        | Inr pid \<Rightarrow> Inr (pid, catch (body proj) 0))
          (enumerate 0 projects)"

text \<open>
  The closing lines shared by the scaled analyzers:
  \<^verbatim>\<open>const maxX = Math.max(0.0001, ...results.map((r) => r.x)); return results.map((r) => ({ project_id: r.project_id, col: maxX > 0 ? (r.x / maxX) * cap : 0 }))\<close>.
\<close>

definition maxRaw :: "real list \<Rightarrow> real" where
  "maxRaw raws = Math_max 0.0001 raws"

definition normalized :: "real \<Rightarrow> real \<Rightarrow> real \<Rightarrow> real" where
  "normalized cap m raw = (if m > 0 then raw / m * cap else 0)"

definition scoreRows :: "string \<Rightarrow> real \<Rightarrow> (scalar \<times> real) list \<Rightarrow> row list" where
  "scoreRows col cap results =
     map (\<lambda>(pid, raw). \<lparr>row_id = pid, row_col = col,
                         row_val = normalized cap (maxRaw (map snd results)) raw\<rparr>) results"

subsection \<open>Safety frequency and safety rate\<close>

record crashSums =
  K_PEOPLE :: real
  A_PEOPLE :: real
  B_PEOPLE :: real
  C_PEOPLE :: real

definition addCrash :: "env \<Rightarrow> crashSums \<Rightarrow> feature \<Rightarrow> crashSums" where
  "addCrash E acc crash =
     (let props = (case properties crash of None \<Rightarrow> Map.empty | Some ps \<Rightarrow> ps) in
      \<lparr>K_PEOPLE = K_PEOPLE acc + parseFloat_or E (props ''K_PEOPLE'') 0,
       A_PEOPLE = A_PEOPLE acc + parseFloat_or E (props ''A_PEOPLE'') 0,
       B_PEOPLE = B_PEOPLE acc + parseFloat_or E (props ''B_PEOPLE'') 0,
       C_PEOPLE = C_PEOPLE acc + parseFloat_or E (props ''C_PEOPLE'') 0\<rparr>)"

definition EPDO :: "crashSums \<Rightarrow> real" where
  "EPDO crashSums =
     K_PEOPLE crashSums * 2715000 + A_PEOPLE crashSums * 2715000 + B_PEOPLE crashSums * 300000
       + C_PEOPLE crashSums * 170000"

text \<open>Lines 251-288, and again lines 316-345: the benefit of a project.\<close>

definition crashBenefit :: "env \<Rightarrow> feature list \<Rightarrow> feature \<Rightarrow> error + real" where
  "crashBenefit E crashes proj =
     (let buffer = createBuffer E proj (Some 250) ''feet'';
          crashesInBuffer = filter (intersectsBuffer E buffer) crashes;
          crashSums = foldl (addCrash E)
                   \<lparr>K_PEOPLE = 0, A_PEOPLE = 0, B_PEOPLE = 0, C_PEOPLE = 0\<rparr> crashesInBuffer
      in case properties proj of None \<Rightarrow> Inl TypeError
         | Some ps \<Rightarrow> Inr (EPDO crashSums * (1 - parseFloat_or E (ps ''cmf'') 0)))"

definition analyzeSafetyFrequency :: "env \<Rightarrow> feature list \<Rightarrow> feature list \<Rightarrow> error + row list" where
  "analyzeSafetyFrequency E projects crashes =
     (case perProject (crashBenefit E crashes) projects of Inl e \<Rightarrow> Inl e
      | Inr results \<Rightarrow> Inr (scoreRows ''safety_freq'' 50 results))"

text \<open>Lines 352-357: the exposure of a project.\<close>

definition vmtOf :: "string \<Rightarrow> real \<Rightarrow> real \<Rightarrow> real" where
  "vmtOf projectType AADT len =
     (if projectType = ''highway'' then (AADT * len * 365) / 100000000
      else if projectType = ''intersection'' then (AADT * 365) / 1000000
      else 1)"

definition epdoRate :: "env \<Rightarrow> feature list \<Rightarrow> feature \<Rightarrow> error + real" where
  "epdoRate E crashes proj =
     (case crashBenefit E crashes proj of Inl e \<Rightarrow> Inl e
      | Inr benefit \<Rightarrow>
        (case properties proj of None \<Rightarrow> Inl TypeError
         | Some ps \<Rightarrow>
           (case toLowerCase (or_else (ps ''type'') (Some (SStr ''highway''))) of
              Inl e \<Rightarrow> Inl e
            | Inr projectType \<Rightarrow>
                (let AADT = parseFloat_or E (ps ''AADT'') 0;
                     len = parseFloat_or E (ps ''length'') 1;
                     vmt = vmtOf projectType AADT len
                 in Inr (if vmt > 0 then benefit / vmt else 0)))))"

definition analyzeSafetyRate :: "env \<Rightarrow> feature list \<Rightarrow> feature list \<Rightarrow> error + row list" where
  "analyzeSafetyRate E projects crashes =
     (case perProject (epdoRate E crashes) projects of Inl e \<Rightarrow> Inl e
      | Inr results \<Rightarrow> Inr (scoreRows ''safety_rate'' 50 results))"

subsection \<open>Congestion\<close>

text \<open>The body of \<^verbatim>\<open>intersected.forEach\<close> (lines 404-414); an exception skips the segment.
  \<^verbatim>\<open>turf.length(...) || 0\<close> leaves a number as it is.\<close>

definition addSegment :: "env \<Rightarrow> real \<times> real \<Rightarrow> feature \<Rightarrow> real \<times> real" where
  "addSegment E acc seg =
     (case properties seg of None \<Rightarrow> acc
      | Some ps \<Rightarrow>
        (let aadt = parseFloat_or E (or_else (ps ''aadt_0'') (ps ''AADT'')) 0 in
         case turf_length E seg ''miles'' of None \<Rightarrow> acc
         | Some lengthMiles \<Rightarrow> (fst acc + aadt * lengthMiles, snd acc + lengthMiles)))"

definition waAadt :: "env \<Rightarrow> feature list \<Rightarrow> feature \<Rightarrow> error + real" where
  "waAadt E aadt proj =
     (let buffer = createBuffer E proj (Some 0.25) ''miles'';
          intersected = filter (intersectsBuffer E buffer) aadt;
          totals = foldl (addSegment E) (0, 0) intersected
      in Inr (if snd totals > 0 then fst totals / snd totals else 0))"

definition analyzeCongestionDemand :: "env \<Rightarrow> feature list \<Rightarrow> feature list \<Rightarrow> error + row list" where
  "analyzeCongestionDemand E projects aadt =
     (case perProject (waAadt E aadt) projects of Inl e \<Rightarrow> Inl e
      | Inr results \<Rightarrow> Inr (scoreRows ''cong_demand'' 10 results))"

text \<open>\<^verbatim>\<open>losMapping[los] || 0\<close> with \<^verbatim>\<open>losMapping = { A: 0, B: 1, C: 2, D: 3, E: 3, F: 3 }\<close>.\<close>

definition losValue :: "string \<Rightarrow> real" where
  "losValue los =
     (if los = ''B'' then 1 else if los = ''C'' then 2
      else if los = ''D'' \<or> los = ''E'' \<or> los = ''F'' then 3 else 0)"

text \<open>The \<^verbatim>\<open>reduce\<close> of lines 453-456; \<^verbatim>\<open>seg.properties.los_0\<close> and \<^verbatim>\<open>toUpperCase\<close> may throw.\<close>

fun sumCongValue :: "real \<Rightarrow> feature list \<Rightarrow> error + real" where
  "sumCongValue s [] = Inr s"
| "sumCongValue s (seg # segs) =
     (case properties seg of None \<Rightarrow> Inl TypeError
      | Some ps \<Rightarrow>
        (case toUpperCase (or_else (ps ''los_0'') (Some (SStr ''A''))) of Inl e \<Rightarrow> Inl e
         | Inr los \<Rightarrow> sumCongValue (s + losValue los) segs))"

definition congLos :: "env \<Rightarrow> feature list \<Rightarrow> feature \<Rightarrow> error + real" where
  "congLos E aadt proj =
     (let buffer = createBuffer E proj (Some 0.25) ''miles'';
          intersected = filter (intersectsBuffer E buffer) aadt
      in sumCongValue 0 intersected)"

definition analyzeCongestionLos :: "env \<Rightarrow> feature list \<Rightarrow> feature list \<Rightarrow> error + row list" where
  "analyzeCongestionLos E projects aadt =
     (case perProject (congLos E aadt) projects of Inl e \<Rightarrow> Inl e
      | Inr results \<Rightarrow> Inr (scoreRows ''cong_los'' 5 results))"

subsection \<open>Equity access to jobs\<close>

text \<open>The filter callback of \<^verbatim>\<open>debugTAZData\<close> (lines 223-229); it has no \<^verbatim>\<open>try\<close>.\<close>

definition debugValid :: "feature \<Rightarrow> error + bool" where
  "debugValid f =
     (case geometry f of None \<Rightarrow> Inr False
      | Some g \<Rightarrow>
        (case coordinates g of None \<Rightarrow> Inr False
         | Some coords \<Rightarrow> if \<not> json_truthy coords then Inr False else everyNumberArray coords))"

text \<open>
  \<^verbatim>\<open>debugTAZData\<close> only logs, but it can throw: in the filter, and at line 238, which
  reads \<^verbatim>\<open>fc.features[0].geometry.coordinates\<close> when some feature is not valid.
\<close>

definition debugTAZData :: "feature list \<Rightarrow> error + unit" where
  "debugTAZData fc =
     (case mapE debugValid fc of Inl e \<Rightarrow> Inl e
      | Inr oks \<Rightarrow>
        if length fc > length (filter id oks)
        then (case fc of [] \<Rightarrow> Inr ()
              | f # fs \<Rightarrow> (case geometry f of None \<Rightarrow> Inl TypeError | Some g \<Rightarrow> Inr ()))
        else Inr ())"

text \<open>
  The members that every object inherits from \<^verbatim>\<open>Object.prototype\<close>: functions, and for
  \<^verbatim>\<open>__proto__\<close> the prototype itself. All of them are truthy, and none is a number.
\<close>

definition inheritedKeys :: "string list" where
  "inheritedKeys =
     [''constructor'', ''hasOwnProperty'', ''isPrototypeOf'', ''propertyIsEnumerable'',
      ''toLocaleString'', ''toString'', ''valueOf'', ''__proto__'', ''__defineGetter__'',
      ''__defineSetter__'', ''__lookupGetter__'', ''__lookupSetter__'']"

text \<open>
  \<^verbatim>\<open>fcDistancesMiles[fc] || 5\<close> with \<^verbatim>\<open>fcDistancesMiles = { PA: 10, MA: 7.5, MC: 5 }\<close>, for a
  truthy \<^verbatim>\<open>fc\<close>. The key is \<^verbatim>\<open>String(fc)\<close>; the string of a number or of \<^verbatim>\<open>true\<close> is no key of
  the object. For an inherited key the result is the inherited member, which is passed to
  \<^verbatim>\<open>turf.buffer\<close> as the distance: \<open>None\<close>. When \<^verbatim>\<open>turf.buffer\<close> throws on it,
  \<^verbatim>\<open>createBuffer\<close> returns the project itself.
\<close>

definition fcDistance :: "scalar \<Rightarrow> real option" where
  "fcDistance fc =
     (case fc of
        SStr key \<Rightarrow>
          (if key = ''PA'' then Some 10 else if key = ''MA'' then Some 7.5
           else if key = ''MC'' then Some 5
           else if key \<in> set inheritedKeys then None else Some 5)
      | _ \<Rightarrow> Some 5)"

text \<open>\<^verbatim>\<open>selected.reduce((sum, taz) => sum + (parseFloat(taz.properties?.field) || 0), 0)\<close>.\<close>

definition sumEmp :: "env \<Rightarrow> string \<Rightarrow> feature list \<Rightarrow> real" where
  "sumEmp E field selected =
     foldl (\<lambda>s taz. s + parseFloat_or E
              (case properties taz of None \<Rightarrow> None | Some ps \<Rightarrow> ps field) 0) 0 selected"

text \<open>Lines 505-506 and 552-553.\<close>

definition pctChange :: "real \<Rightarrow> real \<Rightarrow> real" where
  "pctChange sumEmp17 sumEmp50 =
     (if sumEmp17 > 0 then ((sumEmp50 - sumEmp17) / sumEmp17) * 100 else 0)"

definition jobsPctChange :: "env \<Rightarrow> feature list \<Rightarrow> feature \<Rightarrow> error + real" where
  "jobsPctChange E popemp proj =
     (case properties proj of None \<Rightarrow> Inl TypeError
      | Some ps \<Rightarrow>
        (let fc = or_default (ps ''fc'') (SStr ''MC'');
             buffer = createBuffer E proj (fcDistance fc) ''miles'';
             selected = getCentroidsWithin E buffer popemp
         in Inr (pctChange (sumEmp E ''emp17'' selected) (sumEmp E ''emp50'' selected))))"

definition analyzeEquityAccessJobs :: "env \<Rightarrow> feature list \<Rightarrow> feature list \<Rightarrow> error + row list" where
  "analyzeEquityAccessJobs E projects popemp =
     (case debugTAZData popemp of Inl e \<Rightarrow> Inl e
      | Inr u \<Rightarrow>
        (case perProject (jobsPctChange E popemp) projects of Inl e \<Rightarrow> Inl e
         | Inr results \<Rightarrow> Inr (scoreRows ''jobs_pc'' 5 results)))"

text \<open>The EJ variant reads \<^verbatim>\<open>taz.properties.field\<close> without \<^verbatim>\<open>?.\<close>: absent properties throw.\<close>

fun sumEmpEJ :: "env \<Rightarrow> string \<Rightarrow> real \<Rightarrow> feature list \<Rightarrow> error + real" where
  "sumEmpEJ E field s [] = Inr s"
| "sumEmpEJ E field s (taz # tazs) =
     (case properties taz of None \<Rightarrow> Inl TypeError
      | Some ps \<Rightarrow> sumEmpEJ E field (s + parseFloat_or E (ps field) 0) tazs)"

definition jobsPctChangeEJ :: "env \<Rightarrow> feature list \<Rightarrow> feature \<Rightarrow> error + real" where
  "jobsPctChangeEJ E popemp proj =
     (case properties proj of None \<Rightarrow> Inl TypeError
      | Some ps \<Rightarrow>
        (let fc = or_default (ps ''fc'') (SStr ''MC'');
             buffer = createBuffer E proj (fcDistance fc) ''miles'';
             selected = getCentroidsWithin E buffer popemp
         in case sumEmpEJ E ''emp17'' 0 selected of Inl e \<Rightarrow> Inl e
            | Inr sumEmp17 \<Rightarrow>
              (case sumEmpEJ E ''emp50'' 0 selected of Inl e \<Rightarrow> Inl e
               | Inr sumEmp50 \<Rightarrow> Inr (pctChange sumEmp17 sumEmp50))))"

definition analyzeEquityAccessJobsEJ ::
  "env \<Rightarrow> feature list \<Rightarrow> feature list \<Rightarrow> feature list \<Rightarrow> error + row list" where
  "analyzeEquityAccessJobsEJ E projects popemp ej =
     (case perProject (jobsPctChangeEJ E popemp) projects of Inl e \<Rightarrow> Inl e
      | Inr results \<Rightarrow> Inr (scoreRows ''jobs_pc_ej'' 5 results))"

subsection \<open>Placeholders drawing from \<^verbatim>\<open>Math.random\<close>\<close>

text \<open>
  \<^verbatim>\<open>Math.random()\<close> reads and advances the generator of the process. Its state is the
  stream of the numbers it will return; a call takes the head.
\<close>

type_synonym rng = "real stream"

text \<open>
  \<^verbatim>\<open>projectsFC.features.map((proj, i) => { const projectId = ...; return { project_id: projectId, col: Math.random() * cap } })\<close>
\<close>

fun randomRows :: "string \<Rightarrow> real \<Rightarrow> (nat \<times> feature) list \<Rightarrow> rng \<Rightarrow> (error + row list) \<times> rng" where
  "randomRows col cap [] g = (Inr [], g)"
| "randomRows col cap ((i, proj) # rest) g =
     (case projectId proj i of Inl e \<Rightarrow> (Inl e, g)
      | Inr pid \<Rightarrow>
        (case randomRows col cap rest (stl g) of
           (Inl e, g') \<Rightarrow> (Inl e, g')
         | (Inr rows, g') \<Rightarrow>
             (Inr (\<lparr>row_id = pid, row_col = col, row_val = shd g * cap\<rparr> # rows), g')))"

definition analyzeAccessNonWork ::
  "feature list \<Rightarrow> feature list \<Rightarrow> feature list \<Rightarrow> rng \<Rightarrow> (error + row list) \<times> rng" where
  "analyzeAccessNonWork projects popemp nw g =
     randomRows ''access_nw_norm'' 5 (enumerate 0 projects) g"

definition analyzeAccessNonWorkEJ ::
  "feature list \<Rightarrow> feature list \<Rightarrow> feature list \<Rightarrow> feature list \<Rightarrow> rng
     \<Rightarrow> (error + row list) \<times> rng" where
  "analyzeAccessNonWorkEJ projects popemp nw ej g =
     randomRows ''access_nw_ej_norm'' 5 (enumerate 0 projects) g"

definition analyzeJobGrowth ::
  "feature list \<Rightarrow> feature list \<Rightarrow> rng \<Rightarrow> (error + row list) \<times> rng" where
  "analyzeJobGrowth projects popemp g =
     randomRows ''job_growth_score'' 10 (enumerate 0 projects) g"

subsection \<open>Environmental impact, freight jobs, activity centers\<close>

definition envScore :: "string \<Rightarrow> real" where
  "envScore tier =
     (if tier = ''EIS'' then 5 else if tier = ''EA'' then 7 else if tier = ''CE'' then 9 else 10)"

text \<open>Lines 595-606: no \<^verbatim>\<open>try\<close> around \<^verbatim>\<open>(proj.properties.tier || "").toUpperCase()\<close>.\<close>

definition analyzeSensitiveFeatures ::
  "feature list \<Rightarrow> feature list \<Rightarrow> feature list \<Rightarrow> feature list \<Rightarrow> feature list
     \<Rightarrow> error + row list" where
  "analyzeSensitiveFeatures projects fhz frsk wet con =
     mapE (\<lambda>(i, proj).
        case projectId proj i of Inl e \<Rightarrow> Inl e
        | Inr pid \<Rightarrow>
          (case properties proj of None \<Rightarrow> Inl TypeError
           | Some ps \<Rightarrow>
             (case toUpperCase (or_else (ps ''tier'') (Some (SStr []))) of Inl e \<Rightarrow> Inl e
              | Inr tier \<Rightarrow>
                  Inr \<lparr>row_id = pid, row_col = ''env_impact_score'', row_val = envScore tier\<rparr>)))
       (enumerate 0 projects)"

definition centroidCount :: "env \<Rightarrow> real \<Rightarrow> feature list \<Rightarrow> feature \<Rightarrow> error + real" where
  "centroidCount E bufferDist zones proj =
     (let buffer = createBuffer E proj (Some bufferDist) ''miles'';
          selected = getCentroidsWithin E buffer zones
      in Inr (real (length selected)))"

definition analyzeFreightJobs :: "env \<Rightarrow> feature list \<Rightarrow> feature list \<Rightarrow> error + row list" where
  "analyzeFreightJobs E projects lehd =
     (case debugTAZData lehd of Inl e \<Rightarrow> Inl e
      | Inr u \<Rightarrow>
        (case perProject (centroidCount E 5 lehd) projects of Inl e \<Rightarrow> Inl e
         | Inr results \<Rightarrow> Inr (scoreRows ''freight_score'' 10 results)))"

definition analyzeActivityCenters :: "env \<Rightarrow> feature list \<Rightarrow> feature list \<Rightarrow> error + row list" where
  "analyzeActivityCenters E projects actv =
     (case debugTAZData actv of Inl e \<Rightarrow> Inl e
      | Inr u \<Rightarrow>
        (case perProject (centroidCount E 2 actv) projects of Inl e \<Rightarrow> Inl e
         | Inr results \<Rightarrow> Inr (scoreRows ''activity_score'' 10 results)))"

section \<open>The pipeline: \<^verbatim>\<open>runAnalysis\<close>\<close>

record files =
  fc_projects :: "feature list"
  fc_crashes :: "feature list"
  fc_aadt :: "feature list"
  fc_popemp :: "feature list"
  fc_t6 :: "feature list"
  fc_nw :: "feature list"
  fc_fhz :: "feature list"
  fc_frsk :: "feature list"
  fc_wet :: "feature list"
  fc_con :: "feature list"
  fc_lehd :: "feature list"
  fc_actv :: "feature list"

text \<open>\<^verbatim>\<open>loadGeoJSON\<close> (lines 58-67): an empty collection when the file cannot be read; the
  path is \<open>None\<close> when \<^verbatim>\<open>filePaths\<close> has no such key.\<close>

definition loadGeoJSON :: "env \<Rightarrow> string option \<Rightarrow> feature list" where
  "loadGeoJSON E filePath =
     (case filePath of None \<Rightarrow> []
      | Some p \<Rightarrow> (case readFeatures E p of None \<Rightarrow> [] | Some fs \<Rightarrow> fs))"

text \<open>\<^verbatim>\<open>filePaths.lehd ? loadGeoJSON(filePaths.lehd) : turf.featureCollection([])\<close>.\<close>

definition loadOptional :: "env \<Rightarrow> string option \<Rightarrow> feature list" where
  "loadOptional E filePath =
     (case filePath of None \<Rightarrow> []
      | Some p \<Rightarrow> if p \<noteq> [] then loadGeoJSON E (Some p) else [])"

text \<open>Lines 721-746: the twelve layers, three of them cleaned.\<close>

definition loadFiles :: "env \<Rightarrow> (string \<rightharpoonup> string) \<Rightarrow> files" where
  "loadFiles E filePaths =
     \<lparr>fc_projects = loadGeoJSON E (filePaths ''projects''),
      fc_crashes = loadGeoJSON E (filePaths ''crashes''),
      fc_aadt = loadGeoJSON E (filePaths ''aadt''),
      fc_popemp = cleanGeoJSON (loadGeoJSON E (filePaths ''popemp'')),
      fc_t6 = loadGeoJSON E (filePaths ''t6''),
      fc_nw = loadGeoJSON E (filePaths ''nw''),
      fc_fhz = loadGeoJSON E (filePaths ''fhz''),
      fc_frsk = loadGeoJSON E (filePaths ''frsk''),
      fc_wet = loadGeoJSON E (filePaths ''wet''),
      fc_con = loadGeoJSON E (filePaths ''con''),
      fc_lehd = cleanGeoJSON (loadOptional E (filePaths ''lehd'')),
      fc_actv = cleanGeoJSON (loadOptional E (filePaths ''actv''))\<rparr>"

text \<open>Lines 749-764: the defaults of a project; \<^verbatim>\<open>feat.properties.project_id\<close> throws when
  the feature has no properties.\<close>

definition defaultProject :: "env \<Rightarrow> nat \<Rightarrow> feature \<Rightarrow> error + feature" where
  "defaultProject E i feat =
     (case properties feat of None \<Rightarrow> Inl TypeError
      | Some ps \<Rightarrow>
        Inr (feat\<lparr>properties := Some (ps
          (''project_id'' \<mapsto> or_default (ps ''project_id'') (SNum (real (i + 1))),
           ''type'' \<mapsto> or_default (ps ''type'') (SStr ''unknown''),
           ''county'' \<mapsto> or_default (ps ''county'') (SStr ''unknown''),
           ''cost_mil'' \<mapsto> SNum (parseFloat_or E (ps ''cost_mil'') 1),
           ''tier'' \<mapsto> or_default (ps ''tier'') (SStr ''unknown''),
           ''fc'' \<mapsto> or_default (ps ''fc'') (SStr ''MC''),
           ''cmf'' \<mapsto> SNum (parseFloat_or E (ps ''cmf'') 0),
           ''AADT'' \<mapsto> SNum (parseFloat_or E (ps ''AADT'') 0),
           ''length'' \<mapsto> SNum (parseFloat_or E (ps ''length'') 1)))\<rparr>))"

definition defaultProjects :: "env \<Rightarrow> feature list \<Rightarrow> error + feature list" where
  "defaultProjects E projects = mapE (\<lambda>(i, feat). defaultProject E i feat) (enumerate 0 projects)"

text \<open>\<^verbatim>\<open>feat.properties.project_id\<close>, and the identifiers that line 753 gives to a collection:
  \<^verbatim>\<open>feat.properties.project_id || i + 1\<close>.\<close>

definition projectKey :: "feature \<Rightarrow> scalar option" where
  "projectKey feat = (case properties feat of None \<Rightarrow> None | Some ps \<Rightarrow> ps ''project_id'')"

definition defaultedIds :: "feature list \<Rightarrow> scalar list" where
  "defaultedIds projects =
     map (\<lambda>(i, feat). or_default (projectKey feat) (SNum (real (i + 1)))) (enumerate 0 projects)"

definition scoreColumns :: "string list" where
  "scoreColumns =
     [''safety_freq'', ''safety_rate'', ''cong_demand'', ''cong_los'', ''jobs_pc'', ''jobs_pc_ej'',
      ''access_nw_norm'', ''access_nw_ej_norm'', ''env_impact_score'', ''job_growth_score'',
      ''freight_score'', ''activity_score'']"

text \<open>
  A value of \<^verbatim>\<open>resultsMap\<close>: the keys of the object that the program reads later. The
  score columns hold numbers (the \<open>1\<close> of the initialisation, then the analyzers' values);
  the other keys hold what the project's properties hold.
\<close>

record entry =
  e_project_id :: "scalar option"
  e_type :: "scalar option"
  e_county :: "scalar option"
  e_cost_mil :: "scalar option"
  e_tier :: "scalar option"
  e_scores :: "string \<rightharpoonup> real"

text \<open>\<^verbatim>\<open>resultsMap\<close> is a \<^verbatim>\<open>Map\<close>: it keeps the order in which its keys were first set, and
  \<^verbatim>\<open>set\<close> on a key that is there replaces the value in place (\<open>AList.update\<close>).\<close>

type_synonym resultsMap = "(scalar option \<times> entry) list"

text \<open>Lines 834-850: all scores start at 1.\<close>

definition initEntry :: "(string \<rightharpoonup> scalar) \<Rightarrow> entry" where
  "initEntry ps =
     \<lparr>e_project_id = ps ''project_id'', e_type = ps ''type'', e_county = ps ''county'',
      e_cost_mil = ps ''cost_mil'', e_tier = ps ''tier'',
      e_scores = [''safety_freq'' \<mapsto> 1, ''safety_rate'' \<mapsto> 1, ''cong_demand'' \<mapsto> 1,
        ''cong_los'' \<mapsto> 1, ''jobs_pc'' \<mapsto> 1, ''jobs_pc_ej'' \<mapsto> 1, ''access_nw_norm'' \<mapsto> 1,
        ''access_nw_ej_norm'' \<mapsto> 1, ''env_impact_score'' \<mapsto> 1, ''job_growth_score'' \<mapsto> 1,
        ''freight_score'' \<mapsto> 1, ''activity_score'' \<mapsto> 1]\<rparr>"

fun initResults :: "resultsMap \<Rightarrow> feature list \<Rightarrow> error + resultsMap" where
  "initResults m [] = Inr m"
| "initResults m (feat # feats) =
     (case properties feat of None \<Rightarrow> Inl TypeError
      | Some ps \<Rightarrow> initResults (AList.update (ps ''project_id'') (initEntry ps) m) feats)"

text \<open>Lines 860-865: \<^verbatim>\<open>if (resultsMap.has(pid)) resultsMap.set(pid, { ...resultsMap.get(pid), ...res })\<close>.\<close>

definition mergeRow :: "resultsMap \<Rightarrow> row \<Rightarrow> resultsMap" where
  "mergeRow m res =
     (case map_of m (Some (row_id res)) of None \<Rightarrow> m
      | Some e \<Rightarrow>
          AList.update (Some (row_id res))
            (e\<lparr>e_project_id := Some (row_id res),
               e_scores := (e_scores e)(row_col res \<mapsto> row_val res)\<rparr>) m)"

text \<open>An entry of the \<^verbatim>\<open>analyses\<close> array, applied to its arguments: it may read and
  advance the random generator, and it may throw.\<close>

type_synonym analysis = "rng \<Rightarrow> (error + row list) \<times> rng"

definition noRandom :: "error + row list \<Rightarrow> analysis" where
  "noRandom result g = (result, g)"

text \<open>Lines 767-828.\<close>

definition analyses :: "env \<Rightarrow> files \<Rightarrow> (string \<times> analysis) list" where
  "analyses E fs =
     [(''safety_freq'', noRandom (analyzeSafetyFrequency E (fc_projects fs) (fc_crashes fs))),
      (''safety_rate'', noRandom (analyzeSafetyRate E (fc_projects fs) (fc_crashes fs))),
      (''cong_demand'', noRandom (analyzeCongestionDemand E (fc_projects fs) (fc_aadt fs))),
      (''cong_los'', noRandom (analyzeCongestionLos E (fc_projects fs) (fc_aadt fs))),
      (''jobs_pc'', noRandom (analyzeEquityAccessJobs E (fc_projects fs) (fc_popemp fs))),
      (''jobs_pc_ej'',
         noRandom (analyzeEquityAccessJobsEJ E (fc_projects fs) (fc_popemp fs) (fc_t6 fs))),
      (''access_nw_norm'', analyzeAccessNonWork (fc_projects fs) (fc_popemp fs) (fc_nw fs)),
      (''access_nw_ej_norm'',
         analyzeAccessNonWorkEJ (fc_projects fs) (fc_popemp fs) (fc_nw fs) (fc_t6 fs)),
      (''env_impact_score'',
         noRandom (analyzeSensitiveFeatures (fc_projects fs) (fc_fhz fs) (fc_frsk fs)
                     (fc_wet fs) (fc_con fs))),
      (''job_growth_score'', analyzeJobGrowth (fc_projects fs) (fc_popemp fs)),
      (''freight_score'', noRandom (analyzeFreightJobs E (fc_projects fs) (fc_lehd fs))),
      (''activity_score'', noRandom (analyzeActivityCenters E (fc_projects fs) (fc_actv fs)))]"

text \<open>Lines 854-869: an analysis that throws is logged and merges nothing.\<close>

fun runAnalyses :: "(string \<times> analysis) list \<Rightarrow> resultsMap \<Rightarrow> rng \<Rightarrow> resultsMap \<times> rng" where
  "runAnalyses [] m g = (m, g)"
| "runAnalyses ((name, fn) # rest) m g =
     (case fn g of
        (Inl e, g') \<Rightarrow> runAnalyses rest m g'
      | (Inr result, g') \<Rightarrow> runAnalyses rest (foldl mergeRow m result) g')"

text \<open>An element of \<^verbatim>\<open>finalData\<close> after lines 888-900, and a project of the response.\<close>

record scored =
  project_id :: "scalar option"
  ptype :: "scalar option"
  county :: "scalar option"
  cost_mil :: number
  tier :: "scalar option"
  scores :: "string \<rightharpoonup> real"
  total_score :: real
  bcr :: real

record ranked = scored +
  rank :: nat

text \<open>\<^verbatim>\<open>parseFloat(project[col] || 0)\<close> on a score column.\<close>

definition scoreValue :: "real option \<Rightarrow> real" where
  "scoreValue v = (case v of None \<Rightarrow> 0 | Some x \<Rightarrow> if x = 0 then 0 else x)"

text \<open>
  Lines 888-900. The values of the twelve columns are written back and summed from the
  left; \<^verbatim>\<open>cost_mil\<close> is parsed again; \<^verbatim>\<open>cost_mil > 0\<close> is false for \<^verbatim>\<open>NaN\<close>. The response
  (lines 909-919) carries the twelve columns of \<^verbatim>\<open>scoreColumns\<close>.
\<close>

definition totals :: "env \<Rightarrow> entry \<Rightarrow> scored" where
  "totals E project =
     (let vals = map (\<lambda>col. scoreValue (e_scores project col)) scoreColumns;
          total = foldl (+) 0 vals;
          cost = parseFloat E (or_else (e_cost_mil project) (Some (SNum 1)))
      in \<lparr>project_id = e_project_id project, ptype = e_type project,
          county = e_county project, cost_mil = cost, tier = e_tier project,
          scores = map_of (zip scoreColumns vals), total_score = total,
          bcr = (case cost of Num c \<Rightarrow> if c > 0 then total / c else 0 | NaN \<Rightarrow> 0)\<rparr>)"

text \<open>
  \<^verbatim>\<open>finalData.sort((a, b) => b.bcr - a.bcr)\<close>: \<^verbatim>\<open>Array.prototype.sort\<close> is a stable sort by
  the comparator (an element goes before another when the comparator is negative, and
  elements that compare equal keep their order). Written as an insertion sort.
\<close>

fun insertBy :: "('a \<Rightarrow> 'a \<Rightarrow> real) \<Rightarrow> 'a \<Rightarrow> 'a list \<Rightarrow> 'a list" where
  "insertBy cmp x [] = [x]"
| "insertBy cmp x (y # ys) = (if cmp x y \<le> 0 then x # y # ys else y # insertBy cmp x ys)"

definition arraySort :: "('a \<Rightarrow> 'a \<Rightarrow> real) \<Rightarrow> 'a list \<Rightarrow> 'a list" where
  "arraySort cmp xs = foldr (insertBy cmp) xs []"

definition sortByBcr :: "scored list \<Rightarrow> scored list" where
  "sortByBcr finalData = arraySort (\<lambda>a b. bcr b - bcr a) finalData"

text \<open>\<^verbatim>\<open>finalData.forEach((proj, i) => { proj.rank = i + 1 })\<close>.\<close>

definition assignRanks :: "scored list \<Rightarrow> ranked list" where
  "assignRanks finalData = map (\<lambda>(i, proj). scored.extend proj (ranked.fields (i + 1))) (enumerate 0 finalData)"

text \<open>\<^verbatim>\<open>sum + p.cost_mil\<close>.\<close>

fun addNumber :: "number \<Rightarrow> number \<Rightarrow> number" where
  "addNumber (Num a) (Num b) = Num (a + b)"
| "addNumber _ _ = NaN"

record analysisOutput =
  projects :: "ranked list"
  total_projects :: nat
  total_cost :: number

text \<open>Lines 872-906: the scored projects in the order of the map, then sorted and ranked.\<close>

definition finalData :: "env \<Rightarrow> resultsMap \<Rightarrow> scored list" where
  "finalData E m = map (\<lambda>(pid, project). totals E project) m"

definition rankProjects :: "scored list \<Rightarrow> ranked list" where
  "rankProjects fd = assignRanks (sortByBcr fd)"

text \<open>Lines 721-764: the layers as the analyzers receive them.\<close>

definition prepareFiles :: "env \<Rightarrow> (string \<rightharpoonup> string) \<Rightarrow> error + files" where
  "prepareFiles E filePaths =
     (let loaded = loadFiles E filePaths in
      case defaultProjects E (fc_projects loaded) of Inl e \<Rightarrow> Inl e
      | Inr projs \<Rightarrow> Inr (loaded\<lparr>fc_projects := projs\<rparr>))"

text \<open>Lines 716-935; an exception is thrown again to the caller.\<close>

definition runAnalysis :: "env \<Rightarrow> (string \<rightharpoonup> string) \<Rightarrow> rng \<Rightarrow> (error + analysisOutput) \<times> rng" where
  "runAnalysis E filePaths g =
     (case prepareFiles E filePaths of Inl e \<Rightarrow> (Inl e, g)
      | Inr fs \<Rightarrow>
        (case initResults [] (fc_projects fs) of Inl e \<Rightarrow> (Inl e, g)
         | Inr m0 \<Rightarrow>
           (case runAnalyses (analyses E fs) m0 g of
              (m, g') \<Rightarrow>
                (let results = rankProjects (finalData E m) in
                 (Inr \<lparr>projects = results, total_projects = length results,
                        total_cost = foldl addNumber (Num 0) (map cost_mil results)\<rparr>, g')))))"

section \<open>The route \<^verbatim>\<open>POST /analyze\<close>\<close>

text \<open>\<^verbatim>\<open>key.replace("_file", "")\<close> replaces the first occurrence.\<close>

fun replaceFirst :: "string \<Rightarrow> string \<Rightarrow> string \<Rightarrow> string" where
  "replaceFirst pat rep [] = (if pat = [] then rep else [])"
| "replaceFirst pat rep (c # cs) =
     (if take (length pat) (c # cs) = pat then rep @ drop (length pat) (c # cs)
      else c # replaceFirst pat rep cs)"

text \<open>
  Lines 964-969. \<^verbatim>\<open>req.files\<close> maps a field name to the array of its uploaded files, each
  given here by its path; \<^verbatim>\<open>req.files[key][0].path\<close> throws on an empty array.
\<close>

fun buildFilePaths :: "(string \<rightharpoonup> string) \<Rightarrow> (string \<times> string list) list \<Rightarrow> error + (string \<rightharpoonup> string)" where
  "buildFilePaths filePaths [] = Inr filePaths"
| "buildFilePaths filePaths ((key, uploaded) # rest) =
     (case uploaded of [] \<Rightarrow> Inl TypeError
      | f # fs \<Rightarrow> buildFilePaths (filePaths(replaceFirst ''_file'' [] key \<mapsto> f)) rest)"

definition requiredFiles :: "string list" where
  "requiredFiles =
     [''projects'', ''crashes'', ''aadt'', ''popemp'', ''t6'', ''nw'', ''fhz'', ''frsk'', ''wet'', ''con'']"

text \<open>\<^verbatim>\<open>!filePaths[file]\<close>: the key is absent, or the path is the empty string.\<close>

definition missingFile :: "(string \<rightharpoonup> string) \<Rightarrow> string \<Rightarrow> bool" where
  "missingFile filePaths file = (case filePaths file of None \<Rightarrow> True | Some p \<Rightarrow> p = [])"

datatype response =
  Json200 analysisOutput
| NoFilesUploaded400
| MissingRequiredFiles400 "string list"
| AnalysisFailed500

text \<open>Lines 958-1000; \<^verbatim>\<open>req.files\<close> is \<open>None\<close> when the request carries no file set.\<close>

definition analyzeRoute ::
  "env \<Rightarrow> (string \<times> string list) list option \<Rightarrow> rng \<Rightarrow> response \<times> rng" where
  "analyzeRoute E reqFiles g =
     (case reqFiles of None \<Rightarrow> (NoFilesUploaded400, g)
      | Some uploaded \<Rightarrow>
        (case buildFilePaths Map.empty uploaded of Inl e \<Rightarrow> (AnalysisFailed500, g)
         | Inr filePaths \<Rightarrow>
           (let missingFiles = filter (missingFile filePaths) requiredFiles in
            if length missingFiles > 0 then (MissingRequiredFiles400 missingFiles, g)
            else (case runAnalysis E filePaths g of
                    (Inl e, g') \<Rightarrow> (AnalysisFailed500, g')
                  | (Inr results, g') \<Rightarrow> (Json200 results, g')))))"

section \<open>Worked examples\<close>

text \<open>Two raw metrics of a scaled criterion.\<close>

definition exampleResults :: "(scalar \<times> real) list" where
  "exampleResults = [(SNum 1, 2715000), (SNum 2, 300000)]"



text \<open>
  An environment for the examples: \<^verbatim>\<open>turf.buffer\<close> returns the feature, every feature
  intersects and lies within every buffer, a centroid is the feature itself, every segment
  is one mile long, no string is a number, and the file system is the given one.
\<close>

definition permissiveEnv :: "(string \<rightharpoonup> feature list) \<Rightarrow> env" where
  "permissiveEnv fsys =
     \<lparr>turf_buffer = (\<lambda>f d u. Some f), turf_booleanIntersects = (\<lambda>a b. Some True),
      turf_centroid = (\<lambda>f. Some f), turf_booleanWithin = (\<lambda>c b. Some True),
      turf_length = (\<lambda>f u. Some 1), parseFloat_str = (\<lambda>s. NaN), readFeatures = fsys\<rparr>"

definition lineGeometry :: geom where
  "lineGeometry =
     \<lparr>gtype = ''LineString'',
      coordinates = Some (JArr [JArr [JNum 0, JNum 0], JArr [JNum 1, JNum 1]])\<rparr>"

text \<open>A highway project that costs 2 (million), and a crash with one person killed.\<close>

definition highwayProject :: feature where
  "highwayProject =
     \<lparr>geometry = Some lineGeometry,
      properties = Some [''type'' \<mapsto> SStr ''highway'', ''cost_mil'' \<mapsto> SNum 2]\<rparr>"

definition fatalCrash :: feature where
  "fatalCrash =
     \<lparr>geometry = Some \<lparr>gtype = ''Point'', coordinates = Some (JArr [JNum 0, JNum 0])\<rparr>,
      properties = Some [''K_PEOPLE'' \<mapsto> SNum 1]\<rparr>"

definition highwayFiles :: "string \<rightharpoonup> feature list" where
  "highwayFiles = [''projects.json'' \<mapsto> [highwayProject], ''crashes.json'' \<mapsto> [fatalCrash]]"

definition examplePaths :: "string \<rightharpoonup> string" where
  "examplePaths = [''projects'' \<mapsto> ''projects.json'', ''crashes'' \<mapsto> ''crashes.json'']"

text \<open>Two projects that carry the same \<^verbatim>\<open>project_id\<close>.\<close>

definition twinProject :: "string \<Rightarrow> feature" where
  "twinProject name =
     \<lparr>geometry = Some lineGeometry,
      properties = Some [''project_id'' \<mapsto> SNum 7, ''county'' \<mapsto> SStr name]\<rparr>"

definition twinFiles :: "string \<rightharpoonup> feature list" where
  "twinFiles = [''projects.json'' \<mapsto> [twinProject ''Alpha'', twinProject ''Beta'']]"

text \<open>A project whose \<^verbatim>\<open>tier\<close> is the number 2, not a string.\<close>

definition numericTierProject :: feature where
  "numericTierProject =
     \<lparr>geometry = Some lineGeometry, properties = Some [''tier'' \<mapsto> SNum 2]\<rparr>"

definition numericTierFiles :: "string \<rightharpoonup> feature list" where
  "numericTierFiles = [''projects.json'' \<mapsto> [numericTierProject]]"

text \<open>Zones: a point, a polygon, and a zone (with coordinates that pass the check of the
  program) whose employment falls from 100 to 50.\<close>

definition pointZone :: feature where
  "pointZone =
     \<lparr>geometry = Some \<lparr>gtype = ''Point'', coordinates = Some (JArr [JNum 1, JNum 2])\<rparr>,
      properties = Some [''emp17'' \<mapsto> SNum 100, ''emp50'' \<mapsto> SNum 150]\<rparr>"

definition polygonZone :: feature where
  "polygonZone =
     \<lparr>geometry = Some \<lparr>gtype = ''Polygon'',
        coordinates = Some (JArr [JArr [JArr [JNum 0, JNum 0], JArr [JNum 1, JNum 0],
                                        JArr [JNum 1, JNum 1], JArr [JNum 0, JNum 0]]])\<rparr>,
      properties = Some [''emp17'' \<mapsto> SNum 100, ''emp50'' \<mapsto> SNum 150]\<rparr>"

definition decliningZone :: feature where
  "decliningZone =
     \<lparr>geometry = Some lineGeometry,
      properties = Some [''emp17'' \<mapsto> SNum 100, ''emp50'' \<mapsto> SNum 50]\<rparr>"

text \<open>An intersection project with \<^verbatim>\<open>AADT = 1000\<close>, its type written with a capital.\<close>

definition intersectionProject :: feature where
  "intersectionProject =
     \<lparr>geometry = Some lineGeometry,
      properties = Some [''type'' \<mapsto> SStr ''Intersection'', ''AADT'' \<mapsto> SNum 1000]\<rparr>"

text \<open>An intersection project with \<^verbatim>\<open>AADT = 1000\<close> whose crash modification factor leaves
  a benefit of 5000 from one fatal crash (2715000 * (1 - 542/543) = 5000).\<close>

definition scenarioProject :: feature where
  "scenarioProject =
     \<lparr>geometry = Some lineGeometry,
      properties = Some [''type'' \<mapsto> SStr ''intersection'', ''AADT'' \<mapsto> SNum 1000,
                         ''cmf'' \<mapsto> SNum (542 / 543)]\<rparr>"

text \<open>A project whose \<^verbatim>\<open>type\<close> is the number 5, not a string.\<close>

definition numberTypeProject :: feature where
  "numberTypeProject =
     \<lparr>geometry = Some lineGeometry,
      properties = Some [''type'' \<mapsto> SNum 5, ''AADT'' \<mapsto> SNum 1000]\<rparr>"

text \<open>The first project of a collection as lines 749-764 leave it, before any analyzer is
  called; a feature without properties is left as it is (the program throws there).\<close>

definition defaulted :: "feature \<Rightarrow> feature" where
  "defaulted feat =
     (case defaultProject (permissiveEnv Map.empty) 0 feat of Inl e \<Rightarrow> feat | Inr proj \<Rightarrow> proj)"

text \<open>Uploads: only the projects file, and all ten required files.\<close>

definition projectsOnly :: "(string \<times> string list) list" where
  "projectsOnly = [(''projects_file'', [''uploads/1-projects.json''])]"

definition tenUploads :: "(string \<times> string list) list" where
  "tenUploads =
     [(''projects_file'', [''p'']), (''crashes_file'', [''c'']), (''aadt_file'', [''a'']),
      (''popemp_file'', [''e'']), (''t6_file'', [''t'']), (''nw_file'', [''n'']),
      (''fhz_file'', [''f'']), (''frsk_file'', [''r'']), (''wet_file'', [''w'']),
      (''con_file'', [''o''])]"

text \<open>The outputs of the pipeline on these examples (with a generator that returns 0).\<close>

definition exampleScores :: "real list \<Rightarrow> (string \<rightharpoonup> real)" where
  "exampleScores vals = map_of (zip scoreColumns vals)"

definition highwayResult :: ranked where
  "highwayResult =
     \<lparr>project_id = Some (SNum 1), ptype = Some (SStr ''highway''),
      county = Some (SStr ''unknown''), cost_mil = Num 2, tier = Some (SStr ''unknown''),
      scores = exampleScores [50, 0, 0, 0, 0, 0, 0, 0, 10, 0, 0, 0],
      total_score = 60, bcr = 30, rank = 1\<rparr>"

definition highwayOutput :: analysisOutput where
  "highwayOutput = \<lparr>projects = [highwayResult], total_projects = 1, total_cost = Num 2\<rparr>"

definition twinResult :: ranked where
  "twinResult =
     \<lparr>project_id = Some (SNum 7), ptype = Some (SStr ''unknown''),
      county = Some (SStr ''Beta''), cost_mil = Num 1, tier = Some (SStr ''unknown''),
      scores = exampleScores [0, 0, 0, 0, 0, 0, 0, 0, 10, 0, 0, 0],
      total_score = 10, bcr = 10, rank = 1\<rparr>"

definition twinOutput :: analysisOutput where
  "twinOutput = \<lparr>projects = [twinResult], total_projects = 1, total_cost = Num 1\<rparr>"

definition numericTierResult :: ranked where
  "numericTierResult =
     \<lparr>project_id = Some (SNum 1), ptype = Some (SStr ''unknown''),
      county = Some (SStr ''unknown''), cost_mil = Num 1, tier = Some (SNum 2),
      scores = exampleScores [0, 0, 0, 0, 0, 0, 0, 0, 1, 0, 0, 0],
      total_score = 1, bcr = 1, rank = 1\<rparr>"

definition numericTierOutput :: analysisOutput where
  "numericTierOutput =
     \<lparr>projects = [numericTierResult], total_projects = 1, total_cost = Num 1\<rparr>"

text \<open>The layers of the numeric-tier example as the analyses receive them.\<close>

definition numericTierDefaulted :: feature where
  "numericTierDefaulted =
     \<lparr>geometry = Some lineGeometry,
      properties = Some ([''tier'' \<mapsto> SNum 2]
        (''project_id'' \<mapsto> SNum 1, ''type'' \<mapsto> SStr ''unknown'',
         ''county'' \<mapsto> SStr ''unknown'', ''cost_mil'' \<mapsto> SNum 1, ''tier'' \<mapsto> SNum 2,
         ''fc'' \<mapsto> SStr ''MC'', ''cmf'' \<mapsto> SNum 0, ''AADT'' \<mapsto> SNum 0,
         ''length'' \<mapsto> SNum 1))\<rparr>"

definition numericTierPrepared :: files where
  "numericTierPrepared =
     \<lparr>fc_projects = [numericTierDefaulted], fc_crashes = [], fc_aadt = [], fc_popemp = [],
      fc_t6 = [], fc_nw = [], fc_fhz = [], fc_frsk = [], fc_wet = [], fc_con = [],
      fc_lehd = [], fc_actv = []\<rparr>"


section \<open>Notions used in the proofs\<close>

text \<open>An analysis writes the column \<open>name\<close>: every row it returns is for that column.\<close>

definition writesColumn :: "string \<Rightarrow> analysis \<Rightarrow> bool" where
  "writesColumn name fn =
     (\<forall>g rows g1 r. fn g = (Inr rows, g1) \<longrightarrow> r \<in> set rows \<longrightarrow> row_col r = name)"



section \<open>Properties of the normalizer\<close>

lemma Math_max_Max: "Math_max x xs = Max (set (x # xs))"
proof -
  have "(\<lambda>a b. max b a) = (max :: real \<Rightarrow> real \<Rightarrow> real)"
    by (intro ext) (simp add: max.commute)
  then have "foldl max x xs = fold max xs x"
    by (simp add: foldl_conv_fold)
  also have "\<dots> = Max (set (x # xs))"
    by (rule Max.set_eq_fold [symmetric])
  finally show ?thesis by (simp add: Math_max_def)
qed

lemma maxRaw_pos: "0 < maxRaw raws"
proof -
  have "(0.0001::real) \<le> Max (set (0.0001 # raws))" by (rule Max_ge) simp_all
  then show ?thesis by (simp add: maxRaw_def Math_max_Max)
qed

lemma maxRaw_ge_eps: "0.0001 \<le> maxRaw raws"
proof -
  have "(0.0001::real) \<le> Max (set (0.0001 # raws))" by (rule Max_ge) simp_all
  then show ?thesis by (simp add: maxRaw_def Math_max_Max)
qed

lemma maxRaw_ge: "r \<in> set raws \<Longrightarrow> r \<le> maxRaw raws"
proof -
  assume "r \<in> set raws"
  then have "r \<le> Max (set (0.0001 # raws))" by (intro Max_ge) simp_all
  then show ?thesis by (simp add: maxRaw_def Math_max_Max)
qed

lemma maxRaw_eq_top:
  assumes "r \<in> set raws" "0.0001 \<le> r" "\<forall>x\<in>set raws. x \<le> r"
  shows "maxRaw raws = r"
proof -
  have "Max (set (0.0001 # raws)) = r"
    using assms by (intro Max_eqI) auto
  then show ?thesis by (simp add: maxRaw_def Math_max_Max)
qed

lemma maxRaw_eq_eps:
  assumes "\<forall>x\<in>set raws. x \<le> 0.0001"
  shows "maxRaw raws = 0.0001"
proof -
  have "Max (set (0.0001 # raws)) = 0.0001"
    using assms by (intro Max_eqI) auto
  then show ?thesis by (simp add: maxRaw_def Math_max_Max)
qed

lemma scoreRows_nth:
  "i < length results \<Longrightarrow>
     scoreRows col cap results ! i =
       \<lparr>row_id = fst (results ! i), row_col = col,
        row_val = normalized cap (maxRaw (map snd results)) (snd (results ! i))\<rparr>"
  by (simp add: scoreRows_def case_prod_beta)

section \<open>Properties of sorting and ranking\<close>

lemma insertBy_bcr: "insertBy (\<lambda>a b. bcr b - bcr a) x ys = insort_key (\<lambda>p. - bcr p) x ys"
  by (induction ys) auto

lemma sortByBcr_sort_key: "sortByBcr fd = sort_key (\<lambda>p. - bcr p) fd"
proof -
  have "insertBy (\<lambda>a b. bcr b - bcr a) = insort_key (\<lambda>p::scored. - bcr p)"
    by (intro ext) (rule insertBy_bcr)
  then show ?thesis by (simp add: sortByBcr_def arraySort_def sort_key_def)
qed

lemma length_assignRanks: "length (assignRanks xs) = length xs"
  by (simp add: assignRanks_def)

lemma assignRanks_nth:
  "i < length xs \<Longrightarrow> assignRanks xs ! i = scored.extend (xs ! i) (ranked.fields (i + 1))"
  by (simp add: assignRanks_def nth_enumerate_eq)

lemma truncate_extend: "scored.truncate (scored.extend p (ranked.fields n)) = p"
  by (simp add: scored.truncate_def scored.extend_def ranked.fields_def)



lemma truncate_assignRanks: "map scored.truncate (assignRanks xs) = xs"
  by (rule nth_equalityI) (simp_all add: length_assignRanks assignRanks_nth truncate_extend)




lemma truncate_rankProjects: "map scored.truncate (rankProjects fd) = sortByBcr fd"
  by (simp add: rankProjects_def truncate_assignRanks)

lemma mset_rankProjects: "mset (map scored.truncate (rankProjects fd)) = mset fd"
  by (simp add: truncate_rankProjects sortByBcr_sort_key)


section \<open>Properties of the pipeline\<close>

subsection \<open>Maps with exceptions\<close>

lemma mapE_Inr_all2: "mapE f xs = Inr ys \<Longrightarrow> list_all2 (\<lambda>x y. f x = Inr y) xs ys"
  by (induction xs arbitrary: ys) (auto split: sum.splits)

lemma mapE_Inr_length: "mapE f xs = Inr ys \<Longrightarrow> length ys = length xs"
  by (drule mapE_Inr_all2) (simp add: list_all2_lengthD)

lemma mapE_Inr_nth: "mapE f xs = Inr ys \<Longrightarrow> i < length xs \<Longrightarrow> f (xs ! i) = Inr (ys ! i)"
  by (drule mapE_Inr_all2) (auto dest: list_all2_nthD)

lemma mapE_total: "(\<And>x. x \<in> set xs \<Longrightarrow> \<exists>y. f x = Inr y) \<Longrightarrow> \<exists>ys. mapE f xs = Inr ys"
proof (induction xs)
  case Nil
  then show ?case by simp
next
  case (Cons x xs)
  then obtain y ys where "f x = Inr y" "mapE f xs = Inr ys" by (meson list.set_intros)
  then show ?case by simp
qed

subsection \<open>Defaulted input\<close>

lemma defaultProject_key:
  "defaultProject E i feat = Inr feat' \<Longrightarrow>
     projectKey feat' = Some (or_default (projectKey feat) (SNum (real (i + 1))))"
  by (auto simp: defaultProject_def projectKey_def split: option.splits)

lemma defaultProject_props:
  "defaultProject E i feat = Inr feat' \<Longrightarrow>
     \<exists>ps c. properties feat' = Some ps \<and> ps ''cost_mil'' = Some (SNum c) \<and> c \<noteq> 0"
  by (auto simp: defaultProject_def parseFloat_or_def split: option.splits number.splits)

lemma defaultProjects_length:
  "defaultProjects E input = Inr projs \<Longrightarrow> length projs = length input"
  by (simp add: defaultProjects_def mapE_Inr_length)

lemma defaultProjects_nth:
  assumes "defaultProjects E input = Inr projs" "i < length input"
  shows "defaultProject E i (input ! i) = Inr (projs ! i)"
  using mapE_Inr_nth [OF assms(1) [unfolded defaultProjects_def], of i] assms(2)
  by (simp add: nth_enumerate_eq)

lemma defaultProjects_keys:
  assumes "defaultProjects E input = Inr projs"
  shows "map projectKey projs = map Some (defaultedIds input)"
proof (rule nth_equalityI)
  show "length (map projectKey projs) = length (map Some (defaultedIds input))"
    using defaultProjects_length [OF assms] by (simp add: defaultedIds_def)
next
  fix i assume "i < length (map projectKey projs)"
  then have i: "i < length input" using defaultProjects_length [OF assms] by simp
  have "projectKey (projs ! i) = Some (or_default (projectKey (input ! i)) (SNum (real (i + 1))))"
    using defaultProjects_nth [OF assms i] by (rule defaultProject_key)
  then show "map projectKey projs ! i = map Some (defaultedIds input) ! i"
    using i defaultProjects_length [OF assms] by (simp add: defaultedIds_def nth_enumerate_eq)
qed

lemma defaultProjects_props:
  assumes "defaultProjects E input = Inr projs" "feat \<in> set projs"
  shows "\<exists>ps c. properties feat = Some ps \<and> ps ''cost_mil'' = Some (SNum c) \<and> c \<noteq> 0"
proof -
  obtain i where i: "i < length projs" "projs ! i = feat"
    using assms(2) by (auto simp: in_set_conv_nth)
  then have "defaultProject E i (input ! i) = Inr feat"
    using defaultProjects_nth [OF assms(1), of i] defaultProjects_length [OF assms(1)] by simp
  then show ?thesis by (rule defaultProject_props)
qed

subsection \<open>The map of results\<close>

lemma set_update_cases:
  "(k', v') \<in> set (AList.update k v m) \<Longrightarrow> (k', v') = (k, v) \<or> (k', v') \<in> set m"
  by (induction m) (auto split: if_splits)

lemma mergeRow_keys: "map fst (mergeRow m r) = map fst m"
proof (cases "map_of m (Some (row_id r))")
  case None
  then show ?thesis by (simp add: mergeRow_def)
next
  case (Some e)
  then have "Some (row_id r) \<in> set (map fst m)"
    by (metis map_of_eq_None_iff option.distinct(1) set_map)
  then show ?thesis using Some by (simp add: mergeRow_def update_keys)
qed

lemma foldl_mergeRow_keys: "map fst (foldl mergeRow m rs) = map fst m"
  by (induction rs arbitrary: m) (simp_all add: mergeRow_keys)

lemma runAnalyses_keys: "runAnalyses as m g = (m', g') \<Longrightarrow> map fst m' = map fst m"
proof (induction as arbitrary: m g)
  case Nil
  then show ?case by simp
next
  case (Cons a as)
  obtain name fn where a: "a = (name, fn)" by (cases a)
  obtain res g1 where fn: "fn g = (res, g1)" by (cases "fn g")
  show ?case
  proof (cases res)
    case (Inl e)
    then show ?thesis using Cons a fn by simp
  next
    case (Inr rows)
    then have "runAnalyses as (foldl mergeRow m rows) g1 = (m', g')"
      using Cons.prems a fn by simp
    then have "map fst m' = map fst (foldl mergeRow m rows)" by (rule Cons.IH)
    then show ?thesis by (simp add: foldl_mergeRow_keys)
  qed
qed

lemma initResults_keys:
  "initResults m feats = Inr m' \<Longrightarrow>
     set (map fst m') = set (map fst m) \<union> set (map projectKey feats)
     \<and> (distinct (map fst m) \<longrightarrow> distinct (map fst m'))"
proof (induction feats arbitrary: m)
  case Nil
  then show ?case by simp
next
  case (Cons feat feats)
  then obtain ps where ps: "properties feat = Some ps"
    by (auto split: option.splits)
  then have "initResults (AList.update (ps ''project_id'') (initEntry ps) m) feats = Inr m'"
    using Cons.prems by simp
  from Cons.IH [OF this] show ?case
    using ps by (auto simp: projectKey_def update_keys distinct_update split: if_splits)
qed

lemma initResults_keys_distinct:
  "initResults m feats = Inr m' \<Longrightarrow> distinct (map fst m @ map projectKey feats) \<Longrightarrow>
     map fst m' = map fst m @ map projectKey feats"
proof (induction feats arbitrary: m)
  case Nil
  then show ?case by simp
next
  case (Cons feat feats)
  then obtain ps where ps: "properties feat = Some ps"
    by (auto split: option.splits)
  let ?m1 = "AList.update (ps ''project_id'') (initEntry ps) m"
  have run: "initResults ?m1 feats = Inr m'" using Cons.prems ps by simp
  have keys: "map fst ?m1 = map fst m @ [projectKey feat]"
    using Cons.prems(2) ps by (auto simp: update_keys projectKey_def)
  then have "distinct (map fst ?m1 @ map projectKey feats)" using Cons.prems(2) by simp
  from Cons.IH [OF run this] show ?case using keys by simp
qed

subsection \<open>Invariants of the map of results\<close>

lemma initResults_inv:
  assumes "initResults m feats = Inr m'"
      and "\<forall>(k, e)\<in>set m. P k e"
      and "\<And>feat ps. feat \<in> set feats \<Longrightarrow> properties feat = Some ps
             \<Longrightarrow> P (ps ''project_id'') (initEntry ps)"
  shows "\<forall>(k, e)\<in>set m'. P k e"
  using assms
proof (induction feats arbitrary: m)
  case Nil
  then show ?case by simp
next
  case (Cons feat feats)
  then obtain ps where ps: "properties feat = Some ps"
    by (auto split: option.splits)
  let ?m1 = "AList.update (ps ''project_id'') (initEntry ps) m"
  have run: "initResults ?m1 feats = Inr m'" using Cons.prems(1) ps by simp
  have "P (ps ''project_id'') (initEntry ps)" using Cons.prems(3) [of feat ps] ps by simp
  then have inv: "\<forall>(k, e)\<in>set ?m1. P k e"
    using Cons.prems(2) by (auto dest: set_update_cases)
  show ?case
  proof (rule Cons.IH [OF run inv])
    fix f qs assume "f \<in> set feats" "properties f = Some qs"
    then show "P (qs ''project_id'') (initEntry qs)" using Cons.prems(3) [of f qs] by simp
  qed
qed

lemma mergeRow_inv:
  assumes "\<forall>(k, e)\<in>set m. P k e"
      and "\<And>e. P (Some (row_id r)) e
             \<Longrightarrow> P (Some (row_id r))
                   (e\<lparr>e_project_id := Some (row_id r),
                      e_scores := (e_scores e)(row_col r \<mapsto> row_val r)\<rparr>)"
  shows "\<forall>(k, e)\<in>set (mergeRow m r). P k e"
proof (cases "map_of m (Some (row_id r))")
  case None
  then show ?thesis using assms(1) by (simp add: mergeRow_def)
next
  case (Some e)
  then have "(Some (row_id r), e) \<in> set m" by (rule map_of_SomeD)
  then have "P (Some (row_id r)) e" using assms(1) by auto
  then have "P (Some (row_id r))
               (e\<lparr>e_project_id := Some (row_id r),
                  e_scores := (e_scores e)(row_col r \<mapsto> row_val r)\<rparr>)"
    by (rule assms(2))
  then show ?thesis using Some assms(1) by (auto simp: mergeRow_def dest!: set_update_cases)
qed

lemma foldl_mergeRow_inv:
  assumes "\<forall>(k, e)\<in>set m. P k e"
      and "\<And>r e. r \<in> set rows \<Longrightarrow> P (Some (row_id r)) e
             \<Longrightarrow> P (Some (row_id r))
                   (e\<lparr>e_project_id := Some (row_id r),
                      e_scores := (e_scores e)(row_col r \<mapsto> row_val r)\<rparr>)"
  shows "\<forall>(k, e)\<in>set (foldl mergeRow m rows). P k e"
  using assms
proof (induction rows arbitrary: m)
  case Nil
  then show ?case by simp
next
  case (Cons r rows)
  have "\<forall>(k, e)\<in>set (mergeRow m r). P k e"
    by (rule mergeRow_inv [OF Cons.prems(1)]) (simp add: Cons.prems(2))
  then show ?case using Cons.IH Cons.prems(2) by simp
qed

lemma runAnalyses_inv:
  assumes "runAnalyses as m g = (m', g')"
      and "\<forall>(k, e)\<in>set m. P k e"
      and "\<And>name fn g0 rows g1 r e. (name, fn) \<in> set as \<Longrightarrow> fn g0 = (Inr rows, g1)
             \<Longrightarrow> r \<in> set rows \<Longrightarrow> P (Some (row_id r)) e
             \<Longrightarrow> P (Some (row_id r))
                   (e\<lparr>e_project_id := Some (row_id r),
                      e_scores := (e_scores e)(row_col r \<mapsto> row_val r)\<rparr>)"
  shows "\<forall>(k, e)\<in>set m'. P k e"
  using assms
proof (induction as arbitrary: m g)
  case Nil
  then show ?case by simp
next
  case (Cons a as)
  obtain name fn where a: "a = (name, fn)" by (cases a)
  obtain res g1 where fn: "fn g = (res, g1)" by (cases "fn g")
  have step: "\<And>name fn g0 rows g1 r e. (name, fn) \<in> set as \<Longrightarrow> fn g0 = (Inr rows, g1)
             \<Longrightarrow> r \<in> set rows \<Longrightarrow> P (Some (row_id r)) e
             \<Longrightarrow> P (Some (row_id r))
                   (e\<lparr>e_project_id := Some (row_id r),
                      e_scores := (e_scores e)(row_col r \<mapsto> row_val r)\<rparr>)"
    using Cons.prems(3) by (meson list.set_intros(2))
  show ?case
  proof (cases res)
    case (Inl e)
    then have "runAnalyses as m g1 = (m', g')" using Cons.prems(1) a fn by simp
    then show ?thesis using Cons.prems(2) step by (rule Cons.IH)
  next
    case (Inr rows)
    then have run: "runAnalyses as (foldl mergeRow m rows) g1 = (m', g')"
      using Cons.prems(1) a fn by simp
    have "(name, fn) \<in> set (a # as)" using a by simp
    then have "\<And>r e. r \<in> set rows \<Longrightarrow> P (Some (row_id r)) e
             \<Longrightarrow> P (Some (row_id r))
                   (e\<lparr>e_project_id := Some (row_id r),
                      e_scores := (e_scores e)(row_col r \<mapsto> row_val r)\<rparr>)"
      using Cons.prems(3) fn Inr by blast
    then have "\<forall>(k, e)\<in>set (foldl mergeRow m rows). P k e"
      by (rule foldl_mergeRow_inv [OF Cons.prems(2)])
    then show ?thesis using run step Cons.IH by blast
  qed
qed

subsection \<open>The scored projects\<close>

lemma foldl_plus_sum_list: "foldl (+) a xs = a + sum_list (xs :: real list)"
  by (induction xs arbitrary: a) simp_all

lemma distinct_scoreColumns: "distinct scoreColumns"
  by (simp add: scoreColumns_def)

lemma totals_scores:
  "c \<in> set scoreColumns \<Longrightarrow> scores (totals E e) c = Some (scoreValue (e_scores e c))"
  by (simp add: totals_def Let_def map_of_zip_map)

lemma totals_total_score:
  "total_score (totals E e) = (\<Sum>c\<leftarrow>scoreColumns. the (scores (totals E e) c))"
proof -
  have eq: "map (\<lambda>c. scoreValue (e_scores e c)) scoreColumns
              = map (\<lambda>c. the (scores (totals E e) c)) scoreColumns"
    by (rule map_cong) (simp_all add: totals_scores)
  have "total_score (totals E e) = sum_list (map (\<lambda>c. scoreValue (e_scores e c)) scoreColumns)"
    by (simp add: totals_def Let_def foldl_plus_sum_list)
  also have "\<dots> = sum_list (map (\<lambda>c. the (scores (totals E e) c)) scoreColumns)"
    by (simp only: eq)
  finally show ?thesis .
qed

lemma totals_bcr:
  "e_cost_mil e = Some (SNum c) \<Longrightarrow> c \<noteq> 0 \<Longrightarrow>
     cost_mil (totals E e) = Num c
     \<and> bcr (totals E e) = (if c > 0 then total_score (totals E e) / c else 0)"
  by (simp add: totals_def Let_def or_else_def)

lemma totals_project_id: "project_id (totals E e) = e_project_id e"
  by (simp add: totals_def Let_def)

lemma finalData_ids:
  "\<forall>(k, e)\<in>set m. e_project_id e = k \<Longrightarrow> map project_id (finalData E m) = map fst m"
  by (induction m) (auto simp: finalData_def totals_project_id)

lemma finalData_length: "length (finalData E m) = length m"
  by (simp add: finalData_def)

lemma truncate_fields:
  "project_id (scored.truncate r) = project_id r"
  "cost_mil (scored.truncate r) = cost_mil r"
  "scores (scored.truncate r) = scores r"
  "total_score (scored.truncate r) = total_score r"
  "bcr (scored.truncate r) = bcr r"
  by (simp_all add: scored.truncate_def)

lemma rankProjects_member:
  assumes "r \<in> set (rankProjects fd)"
  shows "scored.truncate r \<in> set fd"
proof -
  have "scored.truncate r \<in> set (map scored.truncate (rankProjects fd))"
    using assms by simp
  then show ?thesis by (simp only: truncate_rankProjects sortByBcr_sort_key set_sort)
qed

lemma rankProjects_ids:
  "mset (map project_id (rankProjects fd)) = mset (map project_id fd)"
proof -
  have "map project_id (rankProjects fd) = map project_id (map scored.truncate (rankProjects fd))"
    by (simp add: truncate_fields comp_def)
  also have "mset \<dots> = mset (map project_id fd)"
    by (metis mset_map mset_rankProjects)
  finally show ?thesis .
qed

subsection \<open>What a run of the pipeline is made of\<close>

lemma prepareFiles_projects:
  "prepareFiles E filePaths = Inr fs \<Longrightarrow>
     defaultProjects E (loadGeoJSON E (filePaths ''projects'')) = Inr (fc_projects fs)"
  by (auto simp: prepareFiles_def loadFiles_def Let_def split: sum.splits)

lemma runAnalysis_parts:
  assumes "runAnalysis E filePaths g = (Inr out, g')"
  obtains fs m0 m where
    "prepareFiles E filePaths = Inr fs"
    "initResults [] (fc_projects fs) = Inr m0"
    "runAnalyses (analyses E fs) m0 g = (m, g')"
    "projects out = rankProjects (finalData E m)"
    "total_projects out = length (projects out)"
  using assms
  by (auto simp: runAnalysis_def Let_def split: sum.splits prod.splits)

lemma run_ids:
  assumes "initResults [] feats = Inr m0" "runAnalyses as m0 g = (m, g')"
  shows "\<forall>(k, e)\<in>set m. e_project_id e = k"
proof -
  have "\<forall>(k, e)\<in>set m0. e_project_id e = k"
    by (rule initResults_inv [OF assms(1)]) (simp_all add: initEntry_def)
  then show ?thesis
    by (rule runAnalyses_inv [OF assms(2)]) simp
qed

lemma run_costs:
  assumes "initResults [] feats = Inr m0" "runAnalyses as m0 g = (m, g')"
      and "\<forall>feat\<in>set feats. \<exists>ps c. properties feat = Some ps \<and> ps ''cost_mil'' = Some (SNum c) \<and> c \<noteq> 0"
  shows "\<forall>(k, e)\<in>set m. \<exists>c. e_cost_mil e = Some (SNum c) \<and> c \<noteq> 0"
proof -
  have "\<forall>(k, e)\<in>set m0. \<exists>c. e_cost_mil e = Some (SNum c) \<and> c \<noteq> 0"
  proof (rule initResults_inv [OF assms(1)])
    show "\<forall>(k, e)\<in>set []. \<exists>c. e_cost_mil e = Some (SNum c) \<and> c \<noteq> 0" by simp
  next
    fix feat ps assume "feat \<in> set feats" "properties feat = Some ps"
    then show "\<exists>c. e_cost_mil (initEntry ps) = Some (SNum c) \<and> c \<noteq> 0"
      using assms(3) by (fastforce simp: initEntry_def)
  qed
  then show ?thesis
    by (rule runAnalyses_inv [OF assms(2)]) simp
qed

lemma run_keys:
  assumes "initResults [] feats = Inr m0" "runAnalyses as m0 g = (m, g')"
  shows "set (map fst m) = set (map projectKey feats)" and "distinct (map fst m)"
    and "distinct (map projectKey feats) \<Longrightarrow> map fst m = map projectKey feats"
proof -
  have keys: "map fst m = map fst m0" using assms(2) by (rule runAnalyses_keys)
  show "set (map fst m) = set (map projectKey feats)"
    using initResults_keys [OF assms(1)] keys by simp
  show "distinct (map fst m)"
    using initResults_keys [OF assms(1)] keys by simp
  show "map fst m = map projectKey feats" if "distinct (map projectKey feats)"
    using initResults_keys_distinct [OF assms(1)] that keys by simp
qed

lemma runAnalysis_total:
  assumes "list_all (\<lambda>feat. properties feat \<noteq> None) (loadGeoJSON E (filePaths ''projects''))"
  shows "\<exists>out g'. runAnalysis E filePaths g = (Inr out, g')"
proof -
  let ?input = "loadGeoJSON E (filePaths ''projects'')"
  have "\<exists>projs. defaultProjects E ?input = Inr projs"
    unfolding defaultProjects_def
  proof (rule mapE_total)
    fix x assume "x \<in> set (enumerate 0 ?input)"
    then have "fst x < length ?input" "?input ! fst x = snd x"
      by (simp_all add: in_set_enumerate_eq)
    then have "snd x \<in> set ?input" using nth_mem by fastforce
    then have "properties (snd x) \<noteq> None" using assms by (simp add: list_all_iff)
    then obtain ps where "properties (snd x) = Some ps" by blast
    then have "\<exists>y. defaultProject E (fst x) (snd x) = Inr y"
      by (simp add: defaultProject_def)
    then show "\<exists>y. (case x of (i, feat) \<Rightarrow> defaultProject E i feat) = Inr y"
      by (simp add: case_prod_beta)
  qed
  then obtain projs where projs: "defaultProjects E ?input = Inr projs" ..
  then obtain fs where fs: "prepareFiles E filePaths = Inr fs" "fc_projects fs = projs"
    by (simp add: prepareFiles_def loadFiles_def Let_def)
  have "\<exists>m0. initResults m projs = Inr m0" for m
    using defaultProjects_props [OF projs]
  proof (induction projs arbitrary: m)
    case Nil
    then show ?case by simp
  next
    case (Cons p ps)
    then obtain qs where "properties p = Some qs" by (meson list.set_intros(1))
    then show ?case using Cons by simp
  qed
  then obtain m0 where "initResults [] (fc_projects fs) = Inr m0" using fs(2) by blast
  then show ?thesis
    using fs(1) by (auto simp: runAnalysis_def Let_def split: prod.splits)
qed

lemma runAnalysis_ids:
  assumes "runAnalysis E filePaths g = (Inr out, g')"
  shows "set (map project_id (projects out))
           = Some ` set (defaultedIds (loadGeoJSON E (filePaths ''projects'')))"
    and "distinct (map project_id (projects out))"
    and "total_projects out = card (set (defaultedIds (loadGeoJSON E (filePaths ''projects''))))"
    and "length (projects out) = total_projects out"
    and "distinct (defaultedIds (loadGeoJSON E (filePaths ''projects''))) \<Longrightarrow>
           mset (map project_id (projects out))
             = mset (map Some (defaultedIds (loadGeoJSON E (filePaths ''projects''))))"
proof -
  let ?input = "loadGeoJSON E (filePaths ''projects'')"
  from assms obtain fs m0 m where parts:
    "prepareFiles E filePaths = Inr fs"
    "initResults [] (fc_projects fs) = Inr m0"
    "runAnalyses (analyses E fs) m0 g = (m, g')"
    "projects out = rankProjects (finalData E m)"
    "total_projects out = length (projects out)"
    by (rule runAnalysis_parts)
  have keys: "map projectKey (fc_projects fs) = map Some (defaultedIds ?input)"
    using prepareFiles_projects [OF parts(1)] by (rule defaultProjects_keys)
  have ids: "map project_id (finalData E m) = map fst m"
    using run_ids [OF parts(2,3)] by (rule finalData_ids)
  have perm: "mset (map project_id (projects out)) = mset (map fst m)"
    by (simp only: parts(4) rankProjects_ids ids)
  have kset: "set (map fst m) = set (map Some (defaultedIds ?input))"
    using run_keys(1) [OF parts(2,3)] keys by simp
  have kdist: "distinct (map fst m)" by (rule run_keys(2) [OF parts(2,3)])
  show "set (map project_id (projects out)) = Some ` set (defaultedIds ?input)"
    using mset_eq_setD [OF perm] kset by simp
  show dist: "distinct (map project_id (projects out))"
    using perm kdist by (metis mset_eq_imp_distinct_iff)
  show len: "length (projects out) = total_projects out" using parts(5) by simp
  have "length (map project_id (projects out)) = card (set (map project_id (projects out)))"
    using dist by (simp only: distinct_card)
  also have "\<dots> = card (Some ` set (defaultedIds ?input))"
    using mset_eq_setD [OF perm] kset by simp
  also have "\<dots> = card (set (defaultedIds ?input))"
    by (simp add: card_image)
  finally show "total_projects out = card (set (defaultedIds ?input))"
    using parts(5) by simp
  show "mset (map project_id (projects out)) = mset (map Some (defaultedIds ?input))"
    if "distinct (defaultedIds ?input)"
  proof -
    have "distinct (map projectKey (fc_projects fs))"
      using that keys by (simp add: distinct_map)
    then have "map fst m = map projectKey (fc_projects fs)"
      by (rule run_keys(3) [OF parts(2,3)])
    then show ?thesis using perm keys by simp
  qed
qed

subsection \<open>The column an analysis writes\<close>

lemma scoreRows_col: "r \<in> set (scoreRows col cap results) \<Longrightarrow> row_col r = col"
  by (auto simp: scoreRows_def)

lemma randomRows_col:
  "randomRows col cap xs g = (Inr rows, g') \<Longrightarrow> r \<in> set rows \<Longrightarrow> row_col r = col"
proof (induction xs arbitrary: g rows g')
  case Nil
  then show ?case by simp
next
  case (Cons x xs)
  obtain i proj where x: "x = (i, proj)" by (cases x)
  from Cons.prems(1) obtain pid where pid: "projectId proj i = Inr pid"
    by (auto simp: x split: sum.splits)
  obtain res g1 where rest: "randomRows col cap xs (stl g) = (res, g1)"
    by (cases "randomRows col cap xs (stl g)")
  from Cons.prems(1) obtain rows' where rows':
    "res = Inr rows'" "rows = \<lparr>row_id = pid, row_col = col, row_val = shd g * cap\<rparr> # rows'"
    "g1 = g'"
    by (auto simp: x pid rest split: sum.splits)
  show ?case
  proof (cases "r \<in> set rows'")
    case True
    then show ?thesis using Cons.IH [of "stl g" rows' g1] rest rows'(1) by simp
  next
    case False
    then show ?thesis using Cons.prems(2) rows'(2) by simp
  qed
qed

lemma analyzeSensitiveFeatures_col:
  assumes "analyzeSensitiveFeatures input fhz frsk wet con = Inr rows" "r \<in> set rows"
  shows "row_col r = ''env_impact_score''"
proof -
  obtain i where i: "i < length rows" "rows ! i = r"
    using assms(2) by (auto simp: in_set_conv_nth)
  let ?f = "\<lambda>(i, proj).
        case projectId proj i of Inl e \<Rightarrow> Inl e
        | Inr pid \<Rightarrow>
          (case properties proj of None \<Rightarrow> Inl TypeError
           | Some ps \<Rightarrow>
             (case toUpperCase (or_else (ps ''tier'') (Some (SStr []))) of Inl e \<Rightarrow> Inl e
              | Inr t \<Rightarrow>
                  Inr \<lparr>row_id = pid, row_col = ''env_impact_score'', row_val = envScore t\<rparr>))"
  have m: "mapE ?f (enumerate 0 input) = Inr rows"
    using assms(1) by (simp add: analyzeSensitiveFeatures_def)
  have "i < length (enumerate 0 input)" using mapE_Inr_length [OF m] i(1) by simp
  then have "?f (enumerate 0 input ! i) = Inr r"
    using mapE_Inr_nth [OF m, of i] i(2) by simp
  then show ?thesis
    by (cases "enumerate 0 input ! i") (auto split: sum.splits option.splits)
qed

lemma writesColumn_scoreRows:
  assumes "\<And>rows. res = Inr rows \<Longrightarrow> \<exists>results cap. rows = scoreRows name cap results"
  shows "writesColumn name (noRandom res)"
  unfolding writesColumn_def noRandom_def
  using assms by (auto dest: scoreRows_col)

lemma writes_safety_freq:
  "writesColumn ''safety_freq'' (noRandom (analyzeSafetyFrequency E input crashes))"
  by (rule writesColumn_scoreRows) (auto simp: analyzeSafetyFrequency_def split: sum.splits)

lemma writes_safety_rate:
  "writesColumn ''safety_rate'' (noRandom (analyzeSafetyRate E input crashes))"
  by (rule writesColumn_scoreRows) (auto simp: analyzeSafetyRate_def split: sum.splits)

lemma writes_cong_demand:
  "writesColumn ''cong_demand'' (noRandom (analyzeCongestionDemand E input aadt))"
  by (rule writesColumn_scoreRows) (auto simp: analyzeCongestionDemand_def split: sum.splits)

lemma writes_cong_los:
  "writesColumn ''cong_los'' (noRandom (analyzeCongestionLos E input aadt))"
  by (rule writesColumn_scoreRows) (auto simp: analyzeCongestionLos_def split: sum.splits)

lemma writes_jobs_pc:
  "writesColumn ''jobs_pc'' (noRandom (analyzeEquityAccessJobs E input popemp))"
  by (rule writesColumn_scoreRows) (auto simp: analyzeEquityAccessJobs_def split: sum.splits)

lemma writes_jobs_pc_ej:
  "writesColumn ''jobs_pc_ej'' (noRandom (analyzeEquityAccessJobsEJ E input popemp ej))"
  by (rule writesColumn_scoreRows) (auto simp: analyzeEquityAccessJobsEJ_def split: sum.splits)

lemma writes_freight_score:
  "writesColumn ''freight_score'' (noRandom (analyzeFreightJobs E input lehd))"
  by (rule writesColumn_scoreRows) (auto simp: analyzeFreightJobs_def split: sum.splits)

lemma writes_activity_score:
  "writesColumn ''activity_score'' (noRandom (analyzeActivityCenters E input actv))"
  by (rule writesColumn_scoreRows) (auto simp: analyzeActivityCenters_def split: sum.splits)

lemma writes_env_impact_score:
  "writesColumn ''env_impact_score'' (noRandom (analyzeSensitiveFeatures input fhz frsk wet con))"
  unfolding writesColumn_def noRandom_def
  by (auto dest: analyzeSensitiveFeatures_col)

lemma writes_access_nw_norm:
  "writesColumn ''access_nw_norm'' (analyzeAccessNonWork input popemp nw)"
  unfolding writesColumn_def analyzeAccessNonWork_def
  by (auto dest: randomRows_col)

lemma writes_access_nw_ej_norm:
  "writesColumn ''access_nw_ej_norm'' (analyzeAccessNonWorkEJ input popemp nw ej)"
  unfolding writesColumn_def analyzeAccessNonWorkEJ_def
  by (auto dest: randomRows_col)

lemma writes_job_growth_score:
  "writesColumn ''job_growth_score'' (analyzeJobGrowth input popemp)"
  unfolding writesColumn_def analyzeJobGrowth_def
  by (auto dest: randomRows_col)

lemma analyses_write: "list_all (\<lambda>(name, fn). writesColumn name fn) (analyses E fs)"
  unfolding analyses_def
  by (simp only: list.pred_inject case_prod_conv writes_safety_freq writes_safety_rate
        writes_cong_demand writes_cong_los writes_jobs_pc writes_jobs_pc_ej
        writes_freight_score writes_activity_score writes_env_impact_score
        writes_access_nw_norm writes_access_nw_ej_norm writes_job_growth_score simp_thms)

lemma analyses_cols:
  assumes "(name, fn) \<in> set (analyses E fs)" "fn g = (Inr rows, g1)" "r \<in> set rows"
  shows "row_col r = name"
proof -
  have "writesColumn name fn"
    using analyses_write [of E fs] assms(1) by (auto simp: list_all_iff)
  then show ?thesis using assms(2,3) unfolding writesColumn_def by blast
qed

lemma analyses_names: "map fst (analyses E fs) = scoreColumns"
  by (simp add: analyses_def scoreColumns_def)

lemma analyses_unique:
  assumes "(name, fn) \<in> set (analyses E fs)" "(name, fn') \<in> set (analyses E fs)"
  shows "fn = fn'"
proof -
  have "distinct (map fst (analyses E fs))"
    by (simp only: analyses_names distinct_scoreColumns)
  then show ?thesis using assms by (meson eq_key_imp_eq_value)
qed

subsection \<open>A column that no analysis writes\<close>

lemma initEntry_scores: "c \<in> set scoreColumns \<Longrightarrow> e_scores (initEntry ps) c = Some 1"
  by (auto simp: initEntry_def scoreColumns_def)

lemma initResults_ones:
  assumes "initResults [] feats = Inr m0"
  shows "\<forall>(k, e)\<in>set m0. \<forall>c\<in>set scoreColumns. e_scores e c = Some 1"
  by (rule initResults_inv [OF assms]) (simp_all add: initEntry_scores)

lemma run_keeps_one:
  assumes "initResults [] feats = Inr m0"
      and "runAnalyses (analyses E fs) m0 g = (m, g')"
      and "(col, fn) \<in> set (analyses E fs)"
      and "\<forall>g0. \<exists>e. fst (fn g0) = Inl e"
  shows "\<forall>(k, e)\<in>set m. e_scores e col = Some 1"
proof -
  have "col \<in> set (map fst (analyses E fs))" using assms(3) by force
  then have col: "col \<in> set scoreColumns" by (simp only: analyses_names)
  have start: "\<forall>(k, e)\<in>set m0. e_scores e col = Some 1"
    using initResults_ones [OF assms(1)] col by blast
  show ?thesis
  proof (rule runAnalyses_inv [OF assms(2) start])
    fix name fn' g0 rows g1 r e
    assume a: "(name, fn') \<in> set (analyses E fs)" "fn' g0 = (Inr rows, g1)" "r \<in> set rows"
      and e: "e_scores e col = Some 1"
    have "name \<noteq> col"
    proof
      assume "name = col"
      then have "fn' = fn" using a(1) assms(3) by (simp add: analyses_unique)
      then show False using a(2) assms(4) by (metis fst_conv sum.distinct(1))
    qed
    moreover have "row_col r = name" using a by (rule analyses_cols)
    ultimately show "e_scores (e\<lparr>e_project_id := Some (row_id r),
                       e_scores := (e_scores e)(row_col r \<mapsto> row_val r)\<rparr>) col = Some 1"
      using e by simp
  qed
qed

subsection \<open>The random generator\<close>












section \<open>The examples, evaluated\<close>

lemmas eval_load = permissiveEnv_def prepareFiles_def loadFiles_def loadGeoJSON_def
  loadOptional_def cleanGeoJSON_def cleanFeature_def defaultProjects_def defaultProject_def
  or_default_def or_else_def parseFloat_or_def enumerate_eq_zip Let_def

lemmas eval_analyzers = analyses_def noRandom_def analyzeSafetyFrequency_def
  analyzeSafetyRate_def analyzeCongestionDemand_def analyzeCongestionLos_def
  analyzeEquityAccessJobs_def analyzeEquityAccessJobsEJ_def analyzeAccessNonWork_def
  analyzeAccessNonWorkEJ_def analyzeSensitiveFeatures_def analyzeJobGrowth_def
  analyzeFreightJobs_def analyzeActivityCenters_def perProject_def projectId_def catch_def
  crashBenefit_def createBuffer_def intersectsBuffer_def addCrash_def EPDO_def scoreRows_def
  maxRaw_def Math_max_def normalized_def epdoRate_def vmtOf_def waAadt_def addSegment_def
  congLos_def losValue_def debugTAZData_def debugValid_def jobsPctChange_def
  jobsPctChangeEJ_def fcDistance_def inheritedKeys_def sumEmp_def pctChange_def
  getCentroidsWithin_def
  centroidWithin_def envScore_def centroidCount_def lower_char_def upper_char_def

lemmas eval_run = runAnalysis_def initEntry_def mergeRow_def finalData_def totals_def
  scoreValue_def scoreColumns_def rankProjects_def assignRanks_def sortByBcr_def arraySort_def
  scored.extend_def ranked.fields_def exampleScores_def

lemma highway_run:
  "runAnalysis (permissiveEnv highwayFiles) examplePaths (sconst 0) = (Inr highwayOutput, sconst 0)"
  by (simp add: eval_load eval_analyzers eval_run highwayFiles_def examplePaths_def
        highwayProject_def fatalCrash_def lineGeometry_def highwayOutput_def highwayResult_def)

lemma twin_run:
  "runAnalysis (permissiveEnv twinFiles) examplePaths (sconst 0) = (Inr twinOutput, sconst 0)"
  by (simp add: eval_load eval_analyzers eval_run twinFiles_def examplePaths_def
        twinProject_def lineGeometry_def twinOutput_def twinResult_def)

lemma numericTier_prepared:
  "prepareFiles (permissiveEnv numericTierFiles) examplePaths = Inr numericTierPrepared"
  by (simp add: eval_load numericTierFiles_def examplePaths_def numericTierProject_def
        numericTierPrepared_def numericTierDefaulted_def)

lemma numericTier_run:
  "runAnalysis (permissiveEnv numericTierFiles) examplePaths (sconst 0)
     = (Inr numericTierOutput, sconst 0)"
  by (simp add: eval_load eval_analyzers eval_run numericTierFiles_def examplePaths_def
        numericTierProject_def lineGeometry_def numericTierOutput_def numericTierResult_def)

lemma numericTier_throws:
  "analyzeSensitiveFeatures [numericTierDefaulted] [] [] [] [] = Inl TypeError"
  by (simp add: eval_load eval_analyzers numericTierDefaulted_def)

section \<open>The centroid join on points and polygons\<close>

text \<open>
  Claim C1. \<open>getCentroidsWithin\<close> is meant to keep every candidate whose coordinates are
  all numbers and whose centroid lies within the buffer. Its check of the coordinates asks
  for an array of arrays of numbers, which is the shape of a LineString only: a Point
  (an array of numbers) and a Polygon (an array of arrays of positions) are rejected
  although all their coordinates are numbers. Here every centroid lies within the buffer,
  and of a point, a polygon and a line only the line is returned.
\<close>

theorem getCentroidsWithin_drops_points_and_polygons:
  "getCentroidsWithin (permissiveEnv fsys) buffer [pointZone, polygonZone, decliningZone]
     = [decliningZone]"
  by (simp add: getCentroidsWithin_def centroidWithin_def permissiveEnv_def pointZone_def
        polygonZone_def decliningZone_def lineGeometry_def)

section \<open>Bounds of the normalized scores\<close>

text \<open>
  Claim C2, as the program has it. For a criterion scaled by \<open>scoreRows\<close> with a cap
  \<open>cap \<ge> 0\<close>, the score of a project is \<open>raw / maxRaw * cap\<close> with
  \<open>maxRaw = max 0.0001 (max raw)\<close>. It never exceeds the cap; it is at least 0 when the raw
  metric is at least 0, and negative when the raw metric is negative; and the project with
  the largest raw metric scores exactly the cap when that metric is at least 0.0001; when
  no raw metric exceeds 0.0001, the score is \<open>raw / 0.0001 * cap\<close>.
\<close>

theorem scoreRows_bounds:
  assumes "0 \<le> cap" and "i < length results"
  shows "maxRaw (map snd results) = Max (insert 0.0001 (snd ` set results))
       \<and> row_val (scoreRows col cap results ! i)
           = snd (results ! i) / maxRaw (map snd results) * cap
       \<and> row_val (scoreRows col cap results ! i) \<le> cap
       \<and> (0 \<le> snd (results ! i) \<longrightarrow> 0 \<le> row_val (scoreRows col cap results ! i))
       \<and> (snd (results ! i) < 0 \<and> 0 < cap \<longrightarrow> row_val (scoreRows col cap results ! i) < 0)
       \<and> (0.0001 \<le> snd (results ! i) \<and> (\<forall>r\<in>set results. snd r \<le> snd (results ! i))
            \<longrightarrow> row_val (scoreRows col cap results ! i) = cap)
       \<and> ((\<forall>r\<in>set results. snd r \<le> 0.0001)
            \<longrightarrow> row_val (scoreRows col cap results ! i) = snd (results ! i) / 0.0001 * cap)"
proof -
  let ?raw = "snd (results ! i)"
  let ?m = "maxRaw (map snd results)"
  have pos: "0 < ?m" by (rule maxRaw_pos)
  have mem: "?raw \<in> set (map snd results)" using assms(2) by simp
  have le: "?raw \<le> ?m" using mem by (rule maxRaw_ge)
  have val: "row_val (scoreRows col cap results ! i) = ?raw / ?m * cap"
    using assms(2) pos by (simp add: scoreRows_nth normalized_def)
  have "?raw / ?m \<le> 1" using le pos by simp
  then have "?raw / ?m * cap \<le> 1 * cap" using assms(1) by (rule mult_right_mono)
  then have ub: "?raw / ?m * cap \<le> cap" by simp
  have lb: "0 \<le> ?raw / ?m * cap" if "0 \<le> ?raw" using that pos assms(1) by simp
  have neg: "?raw / ?m * cap < 0" if "?raw < 0" "0 < cap"
    using that pos by (simp add: mult_neg_pos divide_neg_pos)
  have top: "?raw / ?m * cap = cap"
    if "0.0001 \<le> ?raw" "\<forall>r\<in>set results. snd r \<le> ?raw"
  proof -
    have "?m = ?raw" using mem that by (intro maxRaw_eq_top) auto
    then show ?thesis using pos by simp
  qed
  have mx: "?m = Max (insert 0.0001 (snd ` set results))"
    by (simp add: maxRaw_def Math_max_Max)
  have low: "row_val (scoreRows col cap results ! i) = ?raw / 0.0001 * cap"
    if "\<forall>r\<in>set results. snd r \<le> 0.0001"
  proof -
    have "?m = 0.0001" using that by (intro maxRaw_eq_eps) auto
    then show ?thesis by (simp only: val)
  qed
  show ?thesis using mx val ub lb neg top low by simp
qed

text \<open>Two projects with the raw metrics 2715000 and 300000 and the cap 50: the first
  scores 50.\<close>

theorem scoreRows_bounds_witness:
  "(0::real) \<le> 50 \<and> (0::nat) < length exampleResults
   \<and> row_val (scoreRows ''safety_freq'' 50 exampleResults ! 0) = 50
   \<and> row_val (scoreRows ''safety_freq'' 50 exampleResults ! 0) \<le> 50
   \<and> 0 \<le> row_val (scoreRows ''safety_freq'' 50 exampleResults ! 0)"
proof -
  have h1: "(0::real) \<le> 50" by simp
  have h2: "(0::nat) < length exampleResults" by (simp add: exampleResults_def)
  have top: "0.0001 \<le> snd (exampleResults ! 0)
               \<and> (\<forall>r\<in>set exampleResults. snd r \<le> snd (exampleResults ! 0))"
    by (simp add: exampleResults_def)
  have nonneg: "0 \<le> snd (exampleResults ! 0)" by (simp add: exampleResults_def)
  show ?thesis
    using h1 h2 top nonneg scoreRows_bounds [OF h1 h2, of "''safety_freq''"] by blast
qed

text \<open>
  Against claim C2 as it is written: a single project near one zone whose employment falls
  from 100 to 50 has the raw metric -50, the largest of its criterion, and scores
  -2500000, which is neither the cap 5 nor within [0, 5]; a single project without
  crashes has the raw metric 0, the largest of its criterion, and scores 0, not the cap 50.
\<close>

theorem normalized_out_of_range:
  "jobsPctChange (permissiveEnv Map.empty) [decliningZone] highwayProject = Inr (- 50)
   \<and> analyzeEquityAccessJobs (permissiveEnv Map.empty) [highwayProject] [decliningZone]
       = Inr [\<lparr>row_id = SNum 1, row_col = ''jobs_pc'', row_val = - 2500000\<rparr>]
   \<and> crashBenefit (permissiveEnv Map.empty) [] highwayProject = Inr 0
   \<and> analyzeSafetyFrequency (permissiveEnv Map.empty) [highwayProject] []
       = Inr [\<lparr>row_id = SNum 1, row_col = ''safety_freq'', row_val = 0\<rparr>]"
  by (simp add: eval_load eval_analyzers highwayProject_def decliningZone_def lineGeometry_def)

section \<open>Projects and identifiers\<close>

text \<open>
  Claim C3, as the program has it. The identifiers after defaulting need not be unique
  (nothing in the program makes them so), and projects that share one are merged into a
  single result. Of a run that returns: the results carry pairwise different identifiers,
  exactly those of the defaulted input, and \<open>total_projects\<close> is their number. When the
  defaulted identifiers of the input are pairwise different, every input project appears
  exactly once in the ranked output and \<open>total_projects\<close> is the number of input features.
\<close>

theorem runAnalysis_projects_by_id:
  assumes "runAnalysis E filePaths g = (Inr out, g')"
  shows "distinct (map project_id (projects out))
       \<and> set (map project_id (projects out))
           = Some ` set (defaultedIds (loadGeoJSON E (filePaths ''projects'')))
       \<and> total_projects out = card (set (defaultedIds (loadGeoJSON E (filePaths ''projects''))))
       \<and> (distinct (defaultedIds (loadGeoJSON E (filePaths ''projects'')))
            \<longrightarrow> mset (map project_id (projects out))
                  = mset (map Some (defaultedIds (loadGeoJSON E (filePaths ''projects''))))
              \<and> total_projects out = length (loadGeoJSON E (filePaths ''projects'')))"
proof -
  let ?ids = "defaultedIds (loadGeoJSON E (filePaths ''projects''))"
  have "total_projects out = length (loadGeoJSON E (filePaths ''projects''))" if "distinct ?ids"
  proof -
    have "card (set ?ids) = length ?ids" using that by (rule distinct_card)
    then show ?thesis using runAnalysis_ids(3) [OF assms] by (simp add: defaultedIds_def)
  qed
  then show ?thesis
    using runAnalysis_ids(1,2,3,5) [OF assms] by blast
qed

text \<open>One project without an identifier: it gets the identifier 1 and is the one result.\<close>

theorem runAnalysis_projects_by_id_witness:
  "runAnalysis (permissiveEnv highwayFiles) examplePaths (sconst 0) = (Inr highwayOutput, sconst 0)
   \<and> defaultedIds (loadGeoJSON (permissiveEnv highwayFiles) (examplePaths ''projects'')) = [SNum 1]
   \<and> map project_id (projects highwayOutput) = [Some (SNum 1)]
   \<and> total_projects highwayOutput
       = length (loadGeoJSON (permissiveEnv highwayFiles) (examplePaths ''projects''))"
proof -
  have ids: "defaultedIds (loadGeoJSON (permissiveEnv highwayFiles) (examplePaths ''projects''))
               = [SNum 1]"
    by (simp add: eval_load defaultedIds_def projectKey_def highwayFiles_def examplePaths_def
          highwayProject_def)
  have out: "map project_id (projects highwayOutput) = [Some (SNum 1)]"
    by (simp add: highwayOutput_def highwayResult_def)
  show ?thesis
    using runAnalysis_projects_by_id [OF highway_run] highway_run ids out by simp
qed

text \<open>
  Against claim C3 as it is written: two input projects that both carry the identifier 7
  keep it after defaulting, and the output has one project, the second of the two.
\<close>

theorem twin_projects_merged:
  "runAnalysis (permissiveEnv twinFiles) examplePaths (sconst 0) = (Inr twinOutput, sconst 0)
   \<and> length (loadGeoJSON (permissiveEnv twinFiles) (examplePaths ''projects'')) = 2
   \<and> defaultedIds (loadGeoJSON (permissiveEnv twinFiles) (examplePaths ''projects''))
       = [SNum 7, SNum 7]
   \<and> total_projects twinOutput = 1
   \<and> map county (projects twinOutput) = [Some (SStr ''Beta'')]"
  using twin_run
  by (simp add: eval_load defaultedIds_def projectKey_def twinFiles_def examplePaths_def
        twinProject_def twinOutput_def twinResult_def)

section \<open>The feature validator on points and polygons\<close>

text \<open>
  Claim C4. \<open>cleanGeoJSON\<close> holds a copy of the same check: of three features, none of
  which has a coordinate that is not a number, it keeps one.
\<close>

theorem cleanGeoJSON_drops_points_and_polygons:
  "cleanGeoJSON [pointZone, polygonZone, decliningZone] = [decliningZone]"
  by (simp add: cleanGeoJSON_def cleanFeature_def pointZone_def polygonZone_def
        decliningZone_def lineGeometry_def)

section \<open>The safety rate\<close>

text \<open>Every project that the analyzers are called with is a project with its defaults.\<close>

lemma prepareFiles_defaulted:
  assumes "prepareFiles E filePaths = Inr fs" and "proj \<in> set (fc_projects fs)"
  shows "\<exists>i feat ps0. properties feat = Some ps0 \<and> defaultProject E i feat = Inr proj"
proof -
  let ?input = "loadGeoJSON E (filePaths ''projects'')"
  have d: "defaultProjects E ?input = Inr (fc_projects fs)"
    using assms(1) by (rule prepareFiles_projects)
  obtain i where i: "i < length (fc_projects fs)" "fc_projects fs ! i = proj"
    using assms(2) by (auto simp: in_set_conv_nth)
  have "defaultProject E i (?input ! i) = Inr proj"
    using defaultProjects_nth [OF d, of i] defaultProjects_length [OF d] i by simp
  moreover from this obtain ps0 where "properties (?input ! i) = Some ps0"
    by (auto simp: defaultProject_def split: option.splits)
  ultimately show ?thesis by blast
qed

lemma parseFloat_or_again:
  "parseFloat_or E (Some (SNum (parseFloat_or E v d))) d = parseFloat_or E v d"
  by (auto simp: parseFloat_or_def split: number.splits)

text \<open>
  Claim C5, as the program has it. Take a project as \<^verbatim>\<open>runAnalysis\<close> passes it to the
  analyzer, that is after the defaults of lines 749-764, where a missing (or otherwise
  falsy) \<^verbatim>\<open>type\<close> has become "unknown" and \<^verbatim>\<open>AADT\<close> and \<^verbatim>\<open>length\<close> have become numbers. When
  its \<^verbatim>\<open>type\<close> is a string, the raw safety rate is \<open>benefit / exposure\<close> when \<open>exposure > 0\<close>
  and 0 otherwise, where the exposure is \<open>(AADT * length * 365) / 1e8\<close> for the lower-cased
  type "highway", \<open>(AADT * 365) / 1e6\<close> for "intersection" and 1 for any other type; so
  the exposure of a project whose type was missing is 1, and its raw rate is the benefit.
  When its \<^verbatim>\<open>type\<close> is not a string, the raw rate is 0. For an intersection with
  \<open>AADT = 1000\<close> and \<open>benefit = 5000\<close> the exposure is 0.365 and the raw rate is 1000000/73,
  within 0.1 of 13698.6.
\<close>

theorem epdoRate_formula:
  assumes "properties feat = Some ps0"
      and "defaultProject E i feat = Inr proj"
      and "properties proj = Some ps"
      and "crashBenefit E crashes proj = Inr benefit"
      and "AADT = parseFloat_or E (ps ''AADT'') 0"
      and "len = parseFloat_or E (ps ''length'') 1"
      and "exposure = (case ps ''type'' of
                         Some (SStr ty) \<Rightarrow>
                           if map lower_char ty = ''highway'' then (AADT * len * 365) / 10 ^ 8
                           else if map lower_char ty = ''intersection'' then (AADT * 365) / 10 ^ 6
                           else 1
                       | _ \<Rightarrow> 1)"
  shows "catch (epdoRate E crashes proj) 0
           = (case ps ''type'' of
                Some (SStr ty) \<Rightarrow> if exposure > 0 then benefit / exposure else 0
              | _ \<Rightarrow> 0)
       \<and> ps ''type'' = Some (or_default (ps0 ''type'') (SStr ''unknown''))
       \<and> ps ''AADT'' = Some (SNum AADT) \<and> AADT = parseFloat_or E (ps0 ''AADT'') 0
       \<and> ps ''length'' = Some (SNum len) \<and> len = parseFloat_or E (ps0 ''length'') 1
       \<and> (\<not> truthy (ps0 ''type'')
            \<longrightarrow> exposure = 1 \<and> catch (epdoRate E crashes proj) 0 = benefit)
       \<and> (ps ''type'' = Some (SStr ''intersection'') \<and> AADT = 1000 \<and> benefit = 5000
            \<longrightarrow> exposure = 0.365 \<and> catch (epdoRate E crashes proj) 0 = 1000000 / 73
                \<and> \<bar>1000000 / 73 - 13698.6\<bar> < (0.1 :: real))"
proof -
  have ps: "ps = ps0
          (''project_id'' \<mapsto> or_default (ps0 ''project_id'') (SNum (real (i + 1))),
           ''type'' \<mapsto> or_default (ps0 ''type'') (SStr ''unknown''),
           ''county'' \<mapsto> or_default (ps0 ''county'') (SStr ''unknown''),
           ''cost_mil'' \<mapsto> SNum (parseFloat_or E (ps0 ''cost_mil'') 1),
           ''tier'' \<mapsto> or_default (ps0 ''tier'') (SStr ''unknown''),
           ''fc'' \<mapsto> or_default (ps0 ''fc'') (SStr ''MC''),
           ''cmf'' \<mapsto> SNum (parseFloat_or E (ps0 ''cmf'') 0),
           ''AADT'' \<mapsto> SNum (parseFloat_or E (ps0 ''AADT'') 0),
           ''length'' \<mapsto> SNum (parseFloat_or E (ps0 ''length'') 1))"
    using assms(1,2,3) by (auto simp: defaultProject_def)
  have ty: "ps ''type'' = Some (or_default (ps0 ''type'') (SStr ''unknown''))"
    by (simp add: ps)
  have a0: "ps ''AADT'' = Some (SNum (parseFloat_or E (ps0 ''AADT'') 0))"
    by (simp add: ps)
  have l0: "ps ''length'' = Some (SNum (parseFloat_or E (ps0 ''length'') 1))"
    by (simp add: ps)
  have a: "AADT = parseFloat_or E (ps0 ''AADT'') 0"
    unfolding assms(5) a0 by (rule parseFloat_or_again)
  have l: "len = parseFloat_or E (ps0 ''length'') 1"
    unfolding assms(6) l0 by (rule parseFloat_or_again)
  have tr: "truthy (ps ''type'')"
    by (auto simp: ty or_default_def split: option.splits)
  have el: "or_else (ps ''type'') (Some (SStr ''highway'')) = ps ''type''"
    using tr by (simp add: or_else_def)
  have raw: "catch (epdoRate E crashes proj) 0
           = (case ps ''type'' of
                Some (SStr ty) \<Rightarrow> if exposure > 0 then benefit / exposure else 0
              | _ \<Rightarrow> 0)"
  proof (cases "\<exists>s. ps ''type'' = Some (SStr s)")
    case True
    then obtain s where s: "ps ''type'' = Some (SStr s)" by blast
    have vmt: "vmtOf (map lower_char s) AADT len = exposure"
      by (simp add: vmtOf_def assms(7) s)
    have lower: "toLowerCase (or_else (ps ''type'') (Some (SStr ''highway''))) = Inr (map lower_char s)"
      by (simp only: el) (simp add: s)
    have "epdoRate E crashes proj = Inr (if exposure > 0 then benefit / exposure else 0)"
      using assms(3,4) vmt
      by (simp add: epdoRate_def Let_def lower assms(5) [symmetric] assms(6) [symmetric]
            del: toLowerCase.simps)
    then show ?thesis by (simp add: catch_def s)
  next
    case False
    then have "toLowerCase (or_else (ps ''type'') (Some (SStr ''highway''))) = Inl TypeError"
      by (simp only: el) (cases "ps ''type''" rule: toLowerCase.cases, auto)
    moreover have "(case ps ''type'' of Some (SStr ty) \<Rightarrow> (if exposure > 0 then benefit / exposure else 0)
                    | _ \<Rightarrow> 0) = (0 :: real)"
      using False by (auto split: option.splits scalar.splits)
    ultimately show ?thesis
      using assms(3,4) by (simp add: epdoRate_def catch_def del: toLowerCase.simps)
  qed
  have missing: "exposure = 1 \<and> catch (epdoRate E crashes proj) 0 = benefit"
    if "\<not> truthy (ps0 ''type'')"
  proof -
    have u: "ps ''type'' = Some (SStr ''unknown'')"
      using that by (auto simp: ty or_default_def split: option.splits)
    have e: "exposure = 1" by (simp add: assms(7) u lower_char_def)
    show ?thesis using raw by (simp add: u e)
  qed
  have scenario: "exposure = 0.365 \<and> catch (epdoRate E crashes proj) 0 = 1000000 / 73"
    if "ps ''type'' = Some (SStr ''intersection'')" "AADT = 1000" "benefit = 5000"
  proof -
    have e: "exposure = 73 / 200" using that assms(7) by (simp add: lower_char_def)
    have "benefit / exposure = 1000000 / 73" unfolding e that(3) by simp
    moreover have "0 < exposure" unfolding e by simp
    ultimately have "catch (epdoRate E crashes proj) 0 = 1000000 / 73"
      using raw that(1) by simp
    then show ?thesis using e by simp
  qed
  have near: "\<bar>1000000 / 73 - 13698.6\<bar> < (0.1 :: real)" by simp
  have a1: "ps ''AADT'' = Some (SNum AADT)" using a0 a by simp
  have l1: "ps ''length'' = Some (SNum len)" using l0 l by simp
  show ?thesis
    using raw ty a1 a l1 l missing scenario near by blast
qed

text \<open>The scenario of the claim: an intersection with \<open>AADT = 1000\<close> and a benefit of 5000,
  after the defaults.\<close>

theorem epdoRate_formula_witness:
  "map_option (\<lambda>ps. (ps ''type'', ps ''AADT'', ps ''length'')) (properties (defaulted scenarioProject))
     = Some (Some (SStr ''intersection''), Some (SNum 1000), Some (SNum 1))
   \<and> crashBenefit (permissiveEnv Map.empty) [fatalCrash] (defaulted scenarioProject) = Inr 5000
   \<and> catch (epdoRate (permissiveEnv Map.empty) [fatalCrash] (defaulted scenarioProject)) 0
       = 1000000 / 73"
proof -
  let ?E = "permissiveEnv Map.empty"
  let ?ps0 = "[''type'' \<mapsto> SStr ''intersection'', ''AADT'' \<mapsto> SNum 1000,
               ''cmf'' \<mapsto> SNum (542 / 543)]"
  obtain ps where ps: "properties (defaulted scenarioProject) = Some ps"
    by (simp add: defaulted_def eval_load scenarioProject_def)
  have h1: "properties scenarioProject = Some ?ps0"
    by (simp add: scenarioProject_def)
  have h2: "defaultProject ?E 0 scenarioProject = Inr (defaulted scenarioProject)"
    by (simp add: defaulted_def defaultProject_def scenarioProject_def)
  have h4: "crashBenefit ?E [fatalCrash] (defaulted scenarioProject) = Inr 5000"
    by (simp add: defaulted_def eval_load eval_analyzers scenarioProject_def fatalCrash_def)
  have t: "ps ''type'' = Some (SStr ''intersection'')"
    using ps by (auto simp: defaulted_def eval_load scenarioProject_def)
  have a: "ps ''AADT'' = Some (SNum 1000)"
    using ps by (auto simp: defaulted_def eval_load scenarioProject_def)
  have l: "ps ''length'' = Some (SNum 1)"
    using ps by (auto simp: defaulted_def eval_load scenarioProject_def)
  have a': "parseFloat_or ?E (ps ''AADT'') 0 = 1000"
    by (simp add: a parseFloat_or_def)
  have "catch (epdoRate ?E [fatalCrash] (defaulted scenarioProject)) 0 = 1000000 / 73"
    using epdoRate_formula [OF h1 h2 ps h4 refl refl refl] t a' by blast
  then show ?thesis
    using h4 t a l ps by simp
qed

text \<open>
  Against claim C5 as it is written, on three projects after the defaults, each with the
  benefit 2715000 of one fatal crash. A highway project without \<open>AADT\<close> has the exposure
  0, and its raw rate is 0, not the benefit divided by the exposure. A project of type
  "Intersection" (with a capital) has the exposure 0.365 of an intersection, not 1. A
  project whose type is the number 5 has the raw rate 0, not the benefit divided by 1.
\<close>

theorem epdoRate_not_quotient:
  "map_option (\<lambda>ps. (ps ''type'', ps ''AADT'', ps ''length'')) (properties (defaulted highwayProject))
     = Some (Some (SStr ''highway''), Some (SNum 0), Some (SNum 1))
   \<and> crashBenefit (permissiveEnv Map.empty) [fatalCrash] (defaulted highwayProject) = Inr 2715000
   \<and> vmtOf ''highway'' 0 1 = 0
   \<and> catch (epdoRate (permissiveEnv Map.empty) [fatalCrash] (defaulted highwayProject)) 0 = 0
   \<and> map_option (\<lambda>ps. (ps ''type'', ps ''AADT'', ps ''length''))
       (properties (defaulted intersectionProject))
     = Some (Some (SStr ''Intersection''), Some (SNum 1000), Some (SNum 1))
   \<and> crashBenefit (permissiveEnv Map.empty) [fatalCrash] (defaulted intersectionProject)
       = Inr 2715000
   \<and> catch (epdoRate (permissiveEnv Map.empty) [fatalCrash] (defaulted intersectionProject)) 0
       = 2715000 / 0.365
   \<and> map_option (\<lambda>ps. (ps ''type'', ps ''AADT'', ps ''length''))
       (properties (defaulted numberTypeProject))
     = Some (Some (SNum 5), Some (SNum 1000), Some (SNum 1))
   \<and> crashBenefit (permissiveEnv Map.empty) [fatalCrash] (defaulted numberTypeProject)
       = Inr 2715000
   \<and> catch (epdoRate (permissiveEnv Map.empty) [fatalCrash] (defaulted numberTypeProject)) 0 = 0"
  by (simp add: defaulted_def eval_load eval_analyzers highwayProject_def intersectionProject_def
        numberTypeProject_def fatalCrash_def)

section \<open>Totals and benefit-cost ratio\<close>

text \<open>
  Claim C6. In the output of a run, \<open>total_score\<close> of every project is the sum of its twelve
  score fields, its \<open>cost_mil\<close> is a number other than 0, and \<open>bcr\<close> is
  \<open>total_score / cost_mil\<close> when \<open>cost_mil > 0\<close> and 0 otherwise; so a project with
  \<open>cost_mil = 2\<close> and \<open>total_score = 60\<close> has \<open>bcr = 30\<close>.
\<close>

theorem runAnalysis_totals:
  assumes "runAnalysis E filePaths g = (Inr out, g')" and "r \<in> set (projects out)"
  shows "(\<forall>c\<in>set scoreColumns. scores r c \<noteq> None)
       \<and> total_score r = (\<Sum>c\<leftarrow>scoreColumns. the (scores r c))
       \<and> (\<exists>c. cost_mil r = Num c \<and> c \<noteq> 0
              \<and> bcr r = (if c > 0 then total_score r / c else 0))
       \<and> (cost_mil r = Num 2 \<and> total_score r = 60 \<longrightarrow> bcr r = 30)"
proof -
  from assms(1) obtain fs m0 m where parts:
    "prepareFiles E filePaths = Inr fs"
    "initResults [] (fc_projects fs) = Inr m0"
    "runAnalyses (analyses E fs) m0 g = (m, g')"
    "projects out = rankProjects (finalData E m)"
    "total_projects out = length (projects out)"
    by (rule runAnalysis_parts)
  have "scored.truncate r \<in> set (finalData E m)"
    using assms(2) parts(4) by (simp add: rankProjects_member)
  then obtain k e where ke: "(k, e) \<in> set m" "scored.truncate r = totals E e"
    by (auto simp: finalData_def)
  have "\<forall>feat\<in>set (fc_projects fs).
          \<exists>ps c. properties feat = Some ps \<and> ps ''cost_mil'' = Some (SNum c) \<and> c \<noteq> 0"
    using defaultProjects_props [OF prepareFiles_projects [OF parts(1)]] by blast
  from run_costs [OF parts(2,3) this] ke(1)
  obtain c where c: "e_cost_mil e = Some (SNum c)" "c \<noteq> 0" by blast
  have sc: "scores r = scores (totals E e)" "total_score r = total_score (totals E e)"
    "cost_mil r = cost_mil (totals E e)" "bcr r = bcr (totals E e)"
    using ke(2) truncate_fields [of r] by simp_all
  have defined: "\<forall>col\<in>set scoreColumns. scores r col \<noteq> None"
    by (simp add: sc totals_scores)
  have total: "total_score r = (\<Sum>col\<leftarrow>scoreColumns. the (scores r col))"
    by (simp only: sc totals_total_score)
  have ratio: "cost_mil r = Num c \<and> bcr r = (if c > 0 then total_score r / c else 0)"
    using totals_bcr [OF c, of E] by (simp add: sc)
  then have "bcr r = 30" if "cost_mil r = Num 2" "total_score r = 60"
    using that by simp
  then show ?thesis using defined total ratio c(2) by blast
qed

text \<open>
  The scenario of the claim: one highway project with \<open>cost_mil = 2\<close> and one fatal crash
  in its buffer scores 50 for safety frequency and 10 for environmental impact, in total
  60, and its \<open>bcr\<close> is 30.
\<close>

theorem runAnalysis_totals_witness:
  "runAnalysis (permissiveEnv highwayFiles) examplePaths (sconst 0) = (Inr highwayOutput, sconst 0)
   \<and> highwayResult \<in> set (projects highwayOutput)
   \<and> cost_mil highwayResult = Num 2
   \<and> total_score highwayResult = 60
   \<and> total_score highwayResult = (\<Sum>c\<leftarrow>scoreColumns. the (scores highwayResult c))
   \<and> bcr highwayResult = 30"
proof -
  have mem: "highwayResult \<in> set (projects highwayOutput)"
    by (simp add: highwayOutput_def)
  have vals: "cost_mil highwayResult = Num 2" "total_score highwayResult = 60"
    by (simp_all add: highwayResult_def)
  show ?thesis
    using runAnalysis_totals [OF highway_run mem] highway_run mem vals by simp
qed

section \<open>Ranks\<close>




section \<open>Determinism of the analyses\<close>




section \<open>The gate of the route\<close>

text \<open>
  Claim C9, as the program has it. A request without a file set is answered with
  "No files uploaded" (and no list). For a request with a file set: when a required
  dataset has no path, the answer is "Missing required files" with exactly the required
  names that have none, in the order of the list of required names, whatever the
  environment, and the random generator is untouched (the pipeline has not run); when all
  ten are there, the answer is that of \<open>runAnalysis\<close>, where an absent \<open>lehd\<close> or \<open>actv\<close> is
  an empty collection.
\<close>

theorem analyzeRoute_gate:
  "analyzeRoute E None g = (NoFilesUploaded400, g)
   \<and> (buildFilePaths Map.empty uploaded = Inr filePaths \<longrightarrow>
        ((\<exists>file\<in>set requiredFiles. missingFile filePaths file) \<longrightarrow>
           analyzeRoute E (Some uploaded) g
             = (MissingRequiredFiles400 (filter (missingFile filePaths) requiredFiles), g)
           \<and> set (filter (missingFile filePaths) requiredFiles)
               = {file \<in> set requiredFiles. missingFile filePaths file})
        \<and> ((\<forall>file\<in>set requiredFiles. \<not> missingFile filePaths file) \<longrightarrow>
             analyzeRoute E (Some uploaded) g
               = (case runAnalysis E filePaths g of
                    (Inl e, g') \<Rightarrow> (AnalysisFailed500, g')
                  | (Inr results, g') \<Rightarrow> (Json200 results, g'))
             \<and> (filePaths ''lehd'' = None \<longrightarrow> fc_lehd (loadFiles E filePaths) = [])
             \<and> (filePaths ''actv'' = None \<longrightarrow> fc_actv (loadFiles E filePaths) = [])))"
proof -
  have none: "analyzeRoute E None g = (NoFilesUploaded400, g)"
    by (simp add: analyzeRoute_def)
  have missing: "analyzeRoute E (Some uploaded) g
             = (MissingRequiredFiles400 (filter (missingFile filePaths) requiredFiles), g)"
    if "buildFilePaths Map.empty uploaded = Inr filePaths"
       "\<exists>file\<in>set requiredFiles. missingFile filePaths file"
  proof -
    have "filter (missingFile filePaths) requiredFiles \<noteq> []"
      using that(2) by (simp add: filter_empty_conv)
    then show ?thesis using that(1) by (simp add: analyzeRoute_def Let_def)
  qed
  have runs: "analyzeRoute E (Some uploaded) g
               = (case runAnalysis E filePaths g of
                    (Inl e, g') \<Rightarrow> (AnalysisFailed500, g')
                  | (Inr results, g') \<Rightarrow> (Json200 results, g'))"
    if "buildFilePaths Map.empty uploaded = Inr filePaths"
       "\<forall>file\<in>set requiredFiles. \<not> missingFile filePaths file"
  proof -
    have "filter (missingFile filePaths) requiredFiles = []"
      using that(2) by (simp add: filter_empty_conv)
    then show ?thesis using that(1) by (simp add: analyzeRoute_def Let_def)
  qed
  have lehd: "fc_lehd (loadFiles E filePaths) = []" if "filePaths ''lehd'' = None"
    using that by (simp add: loadFiles_def loadOptional_def cleanGeoJSON_def)
  have actv: "fc_actv (loadFiles E filePaths) = []" if "filePaths ''actv'' = None"
    using that by (simp add: loadFiles_def loadOptional_def cleanGeoJSON_def)
  show ?thesis using none missing runs lehd actv by auto
qed

text \<open>A request that uploads the projects file only, and one that uploads all ten required
  files (none of which can be read here, so the run has no project).\<close>

theorem analyzeRoute_gate_witness:
  "buildFilePaths Map.empty projectsOnly = Inr [''projects'' \<mapsto> ''uploads/1-projects.json'']
   \<and> analyzeRoute (permissiveEnv Map.empty) (Some projectsOnly) (sconst 0)
       = (MissingRequiredFiles400
            [''crashes'', ''aadt'', ''popemp'', ''t6'', ''nw'', ''fhz'', ''frsk'', ''wet'', ''con''],
          sconst 0)
   \<and> analyzeRoute (permissiveEnv Map.empty) (Some tenUploads) (sconst 0)
       = (Json200 \<lparr>projects = [], total_projects = 0, total_cost = Num 0\<rparr>, sconst 0)"
proof -
  let ?fp = "[''projects'' \<mapsto> ''uploads/1-projects.json'']"
  have h: "buildFilePaths Map.empty projectsOnly = Inr ?fp"
    by (simp add: projectsOnly_def)
  have m: "\<exists>file\<in>set requiredFiles. missingFile ?fp file"
    by (simp add: requiredFiles_def missingFile_def)
  have l: "filter (missingFile ?fp) requiredFiles
             = [''crashes'', ''aadt'', ''popemp'', ''t6'', ''nw'', ''fhz'', ''frsk'', ''wet'', ''con'']"
    by (simp add: requiredFiles_def missingFile_def)
  have ten: "analyzeRoute (permissiveEnv Map.empty) (Some tenUploads) (sconst 0)
       = (Json200 \<lparr>projects = [], total_projects = 0, total_cost = Num 0\<rparr>, sconst 0)"
    by (simp add: analyzeRoute_def tenUploads_def requiredFiles_def missingFile_def
          eval_load eval_analyzers eval_run)
  show ?thesis
    using analyzeRoute_gate [of "permissiveEnv Map.empty" "sconst 0" projectsOnly ?fp] h m l ten
    by simp
qed

text \<open>
  Against claim C9 as it is written: a request without a file set lacks all ten required
  datasets, and its answer names none of them.
\<close>

theorem no_files_no_list:
  "analyzeRoute (permissiveEnv Map.empty) None (sconst 0) = (NoFilesUploaded400, sconst 0)"
  by (simp add: analyzeRoute_def)

section \<open>An analysis that throws\<close>

text \<open>
  Claim C10. The map of results starts with the value 1 in each of the twelve score
  fields of every project. When the analysis of a column throws on every call, that
  column is still 1 for every project of the output, and it adds 1 to the project's
  \<open>total_score\<close> (not 0).
\<close>

theorem failed_analysis_leaves_one:
  assumes "runAnalysis E filePaths g = (Inr out, g')"
      and "prepareFiles E filePaths = Inr fs"
      and "(col, fn) \<in> set (analyses E fs)"
      and "\<forall>g0. \<exists>e. fst (fn g0) = Inl e"
  shows "(\<exists>m0. initResults [] (fc_projects fs) = Inr m0
            \<and> (\<forall>(k, e)\<in>set m0. \<forall>c\<in>set scoreColumns. e_scores e c = Some 1))
       \<and> (\<forall>r\<in>set (projects out).
             scores r col = Some 1
             \<and> total_score r = 1 + (\<Sum>c\<leftarrow>remove1 col scoreColumns. the (scores r c)))"
proof -
  from assms(1) obtain fs' m0 m where parts:
    "prepareFiles E filePaths = Inr fs'"
    "initResults [] (fc_projects fs') = Inr m0"
    "runAnalyses (analyses E fs') m0 g = (m, g')"
    "projects out = rankProjects (finalData E m)"
    "total_projects out = length (projects out)"
    by (rule runAnalysis_parts)
  have fs: "fs' = fs" using parts(1) assms(2) by simp
  have "col \<in> set (map fst (analyses E fs))" using assms(3) by force
  then have col: "col \<in> set scoreColumns" by (simp only: analyses_names)
  have ones: "\<forall>(k, e)\<in>set m. e_scores e col = Some 1"
    using run_keeps_one [OF parts(2) parts(3) [unfolded fs] assms(3,4)] .
  have result: "scores r col = Some 1
      \<and> total_score r = 1 + (\<Sum>c\<leftarrow>remove1 col scoreColumns. the (scores r c))"
    if "r \<in> set (projects out)" for r
  proof -
    have "scored.truncate r \<in> set (finalData E m)"
      using that parts(4) by (simp add: rankProjects_member)
    then obtain k e where ke: "(k, e) \<in> set m" "scored.truncate r = totals E e"
      by (auto simp: finalData_def)
    have sc: "scores r = scores (totals E e)" "total_score r = total_score (totals E e)"
      using ke(2) truncate_fields [of r] by simp_all
    have "e_scores e col = Some 1" using ones ke(1) by blast
    then have one: "scores r col = Some 1"
      using col by (simp add: sc totals_scores scoreValue_def)
    have "total_score r = (\<Sum>c\<leftarrow>scoreColumns. the (scores r c))"
      by (simp only: sc totals_total_score)
    also have "\<dots> = the (scores r col) + (\<Sum>c\<leftarrow>remove1 col scoreColumns. the (scores r c))"
      using col by (rule sum_list_map_remove1)
    finally show ?thesis using one by simp
  qed
  have "\<forall>(k, e)\<in>set m0. \<forall>c\<in>set scoreColumns. e_scores e c = Some 1"
    using parts(2) by (rule initResults_ones)
  then show ?thesis using parts(2) fs result by blast
qed

text \<open>
  A project whose \<open>tier\<close> is the number 2: \<^verbatim>\<open>toUpperCase\<close> throws in
  \<open>analyzeSensitiveFeatures\<close>, outside any \<^verbatim>\<open>try\<close>, and the environmental impact score of
  the output is the initial 1.
\<close>

theorem failed_analysis_leaves_one_witness:
  "runAnalysis (permissiveEnv numericTierFiles) examplePaths (sconst 0)
     = (Inr numericTierOutput, sconst 0)
   \<and> prepareFiles (permissiveEnv numericTierFiles) examplePaths = Inr numericTierPrepared
   \<and> analyzeSensitiveFeatures [numericTierDefaulted] [] [] [] [] = Inl TypeError
   \<and> map (\<lambda>r. scores r ''env_impact_score'') (projects numericTierOutput) = [Some 1]
   \<and> map total_score (projects numericTierOutput) = [1]"
proof -
  let ?fn = "noRandom (analyzeSensitiveFeatures [numericTierDefaulted] [] [] [] [])"
  have mem: "(''env_impact_score'', ?fn)
               \<in> set (analyses (permissiveEnv numericTierFiles) numericTierPrepared)"
    by (simp add: analyses_def numericTierPrepared_def)
  have throws: "\<forall>g0. \<exists>e. fst (?fn g0) = Inl e"
    by (simp add: noRandom_def numericTier_throws)
  have "\<forall>r\<in>set (projects numericTierOutput). scores r ''env_impact_score'' = Some 1"
    using failed_analysis_leaves_one [OF numericTier_run numericTier_prepared mem throws]
    by blast
  then have "map (\<lambda>r. scores r ''env_impact_score'') (projects numericTierOutput) = [Some 1]"
    by (simp add: numericTierOutput_def)
  moreover have "map total_score (projects numericTierOutput) = [1]"
    by (simp add: numericTierOutput_def numericTierResult_def)
  ultimately show ?thesis
    using numericTier_run numericTier_prepared numericTier_throws by simp
qed

end
